theory Spec2Isabelle
  imports Main
begin

section \<open>JSON values and the JavaScript operations the fetcher applies to them\<close>

text \<open>
  The transport of \<^verbatim>\<open>fetcher.js\<close> resolves to a JSON-decoded value of Flow type
  \<^verbatim>\<open>any\<close>. A value is one of the JSON forms, or \<^verbatim>\<open>undefined\<close>, which is what
  reading a missing property yields. Numbers are the integer-valued ones; an object is
  its list of properties.
\<close>

datatype json =
    JUndefined
  | JNull
  | JBool bool
  | JNum int
  | JStr string
  | JArr "json list"
  | JObj "(string \<times> json) list"

text \<open>
  What a rejected promise or a \<^verbatim>\<open>throw\<close> carries: the \<^verbatim>\<open>TypeError\<close> the runtime
  raises on a property read of \<^verbatim>\<open>undefined\<close>/\<^verbatim>\<open>null\<close> and on a call of something
  that is not a function, or any other thrown value.
\<close>

datatype exn = TypeError | Thrown json

definition bindE :: "exn + 'a \<Rightarrow> ('a \<Rightarrow> exn + 'b) \<Rightarrow> exn + 'b" where
  "bindE r k = (case r of Inl e \<Rightarrow> Inl e | Inr v \<Rightarrow> k v)"

text \<open>
  \<^verbatim>\<open>v.k\<close> for the property names the fetcher reads (\<^verbatim>\<open>id\<close>, \<^verbatim>\<open>name\<close>, \<^verbatim>\<open>user\<close>,
  \<^verbatim>\<open>nick\<close>, ...): a \<^verbatim>\<open>TypeError\<close> on \<^verbatim>\<open>undefined\<close> and \<^verbatim>\<open>null\<close>, the property of an
  object or \<^verbatim>\<open>undefined\<close> when it has none, and \<^verbatim>\<open>undefined\<close> on booleans, numbers,
  strings and arrays, whose prototypes define none of these names.
\<close>

fun getProp :: "json \<Rightarrow> string \<Rightarrow> exn + json" where
  "getProp JUndefined k = Inl TypeError"
| "getProp JNull k = Inl TypeError"
| "getProp (JObj kvs) k = Inr (case map_of kvs k of None \<Rightarrow> JUndefined | Some v \<Rightarrow> v)"
| "getProp v k = Inr JUndefined"

text \<open>A chain of property reads, \<^verbatim>\<open>x.user.id\<close> being \<open>path x [''user'', ''id'']\<close>.\<close>

fun path :: "json \<Rightarrow> string list \<Rightarrow> exn + json" where
  "path v [] = Inr v"
| "path v (k # ks) = bindE (getProp v k) (\<lambda>v'. path v' ks)"

text \<open>JavaScript truthiness, and \<^verbatim>\<open>a || b\<close> on values already evaluated.\<close>

fun truthy :: "json \<Rightarrow> bool" where
  "truthy JUndefined = False"
| "truthy JNull = False"
| "truthy (JBool b) = b"
| "truthy (JNum n) = (n \<noteq> 0)"
| "truthy (JStr s) = (s \<noteq> [])"
| "truthy (JArr xs) = True"
| "truthy (JObj kvs) = True"

definition js_or :: "json \<Rightarrow> json \<Rightarrow> json" where
  "js_or a b = (if truthy a then a else b)"

text \<open>
  A flag as the upstream service sends it: a boolean, or left out (\<^verbatim>\<open>undefined\<close> when read,
  or an explicit \<^verbatim>\<open>null\<close>).
\<close>

fun optional_boolean :: "json \<Rightarrow> bool" where
  "optional_boolean JUndefined = True"
| "optional_boolean JNull = True"
| "optional_boolean (JBool b) = True"
| "optional_boolean v = False"

text \<open>
  \<^verbatim>\<open>v.map(f)\<close>: only an array has a \<^verbatim>\<open>map\<close> method (a JSON-decoded object cannot hold
  a function), so every other receiver is a \<^verbatim>\<open>TypeError\<close>. The callback runs on the
  elements from left to right and the first exception ends the call.
\<close>

definition asArray :: "json \<Rightarrow> exn + json list" where
  "asArray v = (case v of JArr xs \<Rightarrow> Inr xs | _ \<Rightarrow> Inl TypeError)"

fun mapE :: "('a \<Rightarrow> exn + 'b) \<Rightarrow> 'a list \<Rightarrow> exn + 'b list" where
  "mapE f [] = Inr []"
| "mapE f (x # xs) =
     (case f x of
        Inl e \<Rightarrow> Inl e
      | Inr y \<Rightarrow> (case mapE f xs of Inl e \<Rightarrow> Inl e | Inr ys \<Rightarrow> Inr (y # ys)))"

definition array_map :: "json \<Rightarrow> (json \<Rightarrow> exn + 'b) \<Rightarrow> exn + 'b list" where
  "array_map v f = bindE (asArray v) (mapE f)"

text \<open>
  \<^verbatim>\<open>`${n}`\<close> for a number: decimal digits with a leading minus sign, which is what
  \<^verbatim>\<open>Number.prototype.toString\<close> gives on the safe integers.
\<close>

definition digit :: "nat \<Rightarrow> char" where
  "digit d = ''0123456789'' ! d"

function digits :: "nat \<Rightarrow> string" where
  "digits n = (if n < 10 then [digit n] else digits (n div 10) @ [digit (n mod 10)])"
  by pat_completeness auto
termination
  by (relation "measure (\<lambda>n. n)") auto

declare digits.simps [simp del]

definition Number_toString :: "int \<Rightarrow> string" where
  "Number_toString n = (if n < 0 then CHR ''-'' # digits (nat (- n)) else digits (nat n))"

text \<open>
  \<^verbatim>\<open>`${v}`\<close> for any value: a string is itself, \<^verbatim>\<open>undefined\<close>, \<^verbatim>\<open>null\<close> and the booleans
  are their names, an array is its elements joined by commas (\<^verbatim>\<open>undefined\<close> and \<^verbatim>\<open>null\<close>
  elements left empty), and an object is \<^verbatim>\<open>[object Object]\<close>.
\<close>

fun join_comma :: "string list \<Rightarrow> string" where
  "join_comma [] = []"
| "join_comma [x] = x"
| "join_comma (x # y # ys) = x @ '','' @ join_comma (y # ys)"

fun js_toString :: "json \<Rightarrow> string" where
  "js_toString JUndefined = ''undefined''"
| "js_toString JNull = ''null''"
| "js_toString (JBool b) = (if b then ''true'' else ''false'')"
| "js_toString (JNum n) = Number_toString n"
| "js_toString (JStr s) = s"
| "js_toString (JArr xs) =
     join_comma (map (\<lambda>x. if x = JUndefined \<or> x = JNull then [] else js_toString x) xs)"
| "js_toString (JObj kvs) = ''[object Object]''"

section \<open>The data model of \<^verbatim>\<open>fetcher.js\<close>\<close>

record FetchOptions =
  guildId :: string
  membersLimit :: int
  messagesLimit :: int
  reactionsLimit :: int

record PageInfo =
  hasNextPage :: bool
  endCursor :: json

record 'a ResultPage =
  pageInfo :: PageInfo
  results :: "'a list"

record Guild =
  guild_id :: json
  guild_name :: json
  guild_permissions :: json

record Channel =
  channel_id :: json
  channel_name :: json
  channel_type :: string

record User =
  user_id :: json
  username :: json
  discriminator :: json
  bot :: json

record GuildMember =
  user :: User
  nick :: json
  roles :: json

record Message =
  message_id :: json
  message_channelId :: string
  message_authorId :: json
  timestampMs :: "int option"
  content :: json
  reactionEmoji :: "json list"
  nonUserAuthor :: bool
  mentions :: "json list"

record Reaction =
  reaction_emoji :: json
  reaction_channelId :: string
  reaction_messageId :: string
  reaction_authorId :: json

text \<open>
  The functions \<^verbatim>\<open>fetcher.js\<close> imports from \<^verbatim>\<open>./models\<close>, which is not among the
  sources: parameters of the methods that call them, with the result types of their
  Flow signatures (\<^verbatim>\<open>ChannelType\<close> and \<^verbatim>\<open>EmojiRef\<close> are strings). Each of them may throw
  (\<open>Inl\<close>) instead of returning. The built-in \<^verbatim>\<open>Date.parse\<close> is a parameter of
  \<^verbatim>\<open>messages\<close>; it returns on every value, \<open>None\<close> being \<^verbatim>\<open>NaN\<close>.
\<close>

record Model =
  channelTypeFromId :: "json \<Rightarrow> exn + string"
  emojiToRef :: "json \<Rightarrow> exn + string"
  isAuthoredByNonUser :: "json \<Rightarrow> exn + bool"

type_synonym DateParse = "json \<Rightarrow> int option"

text \<open>
  \<^verbatim>\<open>FetchEndpoint = (endpoint: string) => Promise<any>\<close>. The transport is injected and
  may do anything to the world outside the fetcher (\<open>'w\<close>); its promise resolves
  (\<open>Inr\<close>) or rejects (\<open>Inl\<close>). It is given the endpoint and nothing else: the
  fetcher object is not among its arguments.
\<close>

type_synonym 'w FetchEndpoint = "string \<Rightarrow> 'w \<Rightarrow> (exn + json) \<times> 'w"

record 'w Fetcher =
  fetchEndpoint :: "'w FetchEndpoint"
  options :: FetchOptions

definition Fetcher_new :: "'w FetchEndpoint \<Rightarrow> FetchOptions \<Rightarrow> 'w Fetcher" where
  "Fetcher_new f opts = \<lparr>fetchEndpoint = f, options = opts\<rparr>"

text \<open>
  \<^verbatim>\<open>constructor(fetchEndpoint, options) { this._fetch = fetchEndpoint; this._options = options; }\<close>

  A method runs on the fetcher object (\<open>this\<close>) and the world, and returns both with
  the outcome of its promise; \<open>await_fetch\<close> is \<^verbatim>\<open>await this._fetch(endpoint)\<close>.
\<close>

record 'w state =
  this :: "'w Fetcher"
  world :: 'w

definition await_fetch ::
  "'w state \<Rightarrow> string \<Rightarrow> (exn + json) \<times> 'w state" where
  "await_fetch s endpoint =
     (case fetchEndpoint (this s) endpoint (world s) of
        (r, w') \<Rightarrow> (r, s\<lparr>world := w'\<rparr>))"

section \<open>The methods of \<^verbatim>\<open>Fetcher\<close>\<close>

text \<open>
  \<^verbatim>\<open>
  async guild() {
    const {guildId} = this._options;
    const {id, name, permissions} = await this._fetch(`guilds/${guildId}`);
    return {id: id, name: name, permissions: permissions};
  }
  \<close>
  Destructuring \<^verbatim>\<open>undefined\<close> or \<^verbatim>\<open>null\<close> is a \<^verbatim>\<open>TypeError\<close>, as the first property read
  is.
\<close>

definition guild :: "'w state \<Rightarrow> (exn + Guild) \<times> 'w state" where
  "guild s =
     (let guildId = guildId (options (this s));
          (r, s') = await_fetch s (''guilds/'' @ guildId)
      in (bindE r (\<lambda>response.
            bindE (getProp response ''id'') (\<lambda>id.
            bindE (getProp response ''name'') (\<lambda>name.
            bindE (getProp response ''permissions'') (\<lambda>permissions.
              Inr \<lparr>guild_id = id, guild_name = name, guild_permissions = permissions\<rparr>)))),
          s'))"

text \<open>
  \<^verbatim>\<open>
  async channels() {
    const {guildId} = this._options;
    const response = await this._fetch(`/guilds/${guildId}/channels`);
    return response.map((x) => ({
      id: x.id,
      name: x.name,
      type: Model.channelTypeFromId(x.type),
    }));
  }
  \<close>
  The callback of each \<^verbatim>\<open>response.map\<close> is a definition of its own, \<open>channels_item\<close>
  here.
\<close>

definition channels_item :: "Model \<Rightarrow> json \<Rightarrow> exn + Channel" where
  "channels_item M x =
     bindE (getProp x ''id'') (\<lambda>id.
     bindE (getProp x ''name'') (\<lambda>name.
     bindE (getProp x ''type'') (\<lambda>ty.
     bindE (channelTypeFromId M ty) (\<lambda>type.
       Inr \<lparr>channel_id = id, channel_name = name, channel_type = type\<rparr>))))"

definition channels :: "Model \<Rightarrow> 'w state \<Rightarrow> (exn + Channel list) \<times> 'w state" where
  "channels M s =
     (let guildId = guildId (options (this s));
          (r, s') = await_fetch s (''/guilds/'' @ guildId @ ''/channels'')
      in (bindE r (\<lambda>response.
            bindE (asArray response) (\<lambda>raw. mapE (channels_item M) raw)),
          s'))"

text \<open>
  \<^verbatim>\<open>
  async members(after) {
    const {membersLimit, guildId} = this._options;
    const endpoint = `/guilds/${guildId}/members?after=${after}&limit=${membersLimit}`;
    const response = await this._fetch(endpoint);
    const results = response.map((x) => ({
      user: {
        id: x.user.id,
        username: x.user.username,
        discriminator: x.user.discriminator,
        bot: x.user.bot || x.user.system || false,
      },
      nick: x.nick || null,
      roles: x.roles,
    }));
    const hasNextPage = results.length === membersLimit;
    const endCursor =
      response.length > 0 ? response[response.length - 1].user.id : null;
    const pageInfo = {hasNextPage, endCursor};
    return {results, pageInfo};
  }
  \<close>
  In \<^verbatim>\<open>a || b || false\<close> the operand \<^verbatim>\<open>b\<close> is read only when \<^verbatim>\<open>a\<close> is falsy.
\<close>

definition members_item :: "json \<Rightarrow> exn + GuildMember" where
  "members_item x =
     bindE (path x [''user'', ''id'']) (\<lambda>id.
     bindE (path x [''user'', ''username'']) (\<lambda>username.
     bindE (path x [''user'', ''discriminator'']) (\<lambda>discriminator.
     bindE (path x [''user'', ''bot'']) (\<lambda>b.
     bindE (if truthy b then Inr b
            else bindE (path x [''user'', ''system'']) (\<lambda>sys.
                   Inr (js_or sys (JBool False)))) (\<lambda>bot.
     bindE (getProp x ''nick'') (\<lambda>nick.
     bindE (getProp x ''roles'') (\<lambda>roles.
       Inr \<lparr>user = \<lparr>user_id = id, username = username,
                    discriminator = discriminator, bot = bot\<rparr>,
            nick = js_or nick JNull,
            roles = roles\<rparr>)))))))"

definition members ::
  "'w state \<Rightarrow> string \<Rightarrow> (exn + GuildMember ResultPage) \<times> 'w state" where
  "members s after =
     (let membersLimit = membersLimit (options (this s));
          guildId = guildId (options (this s));
          endpoint = ''/guilds/'' @ guildId @ ''/members?after='' @ after
                     @ ''&limit='' @ Number_toString membersLimit;
          (r, s') = await_fetch s endpoint
      in (bindE r (\<lambda>response.
            bindE (asArray response) (\<lambda>raw.
            bindE (mapE members_item raw) (\<lambda>results.
              let hasNextPage = (int (length results) = membersLimit) in
              bindE (if length raw > 0
                     then path (raw ! (length raw - 1)) [''user'', ''id'']
                     else Inr JNull) (\<lambda>endCursor.
                Inr \<lparr>pageInfo = \<lparr>hasNextPage = hasNextPage, endCursor = endCursor\<rparr>,
                     results = results\<rparr>)))),
          s'))"

text \<open>
  \<^verbatim>\<open>
  async messages(channel, after) {
    const {messagesLimit} = this._options;
    const endpoint = `/channels/${channel}/messages?after=${after}&limit=${messagesLimit}`;
    const response = await this._fetch(endpoint);
    const results = response.map((x) => ({
      id: x.id,
      channelId: channel,
      authorId: x.author.id,
      timestampMs: Date.parse(x.timestamp),
      content: x.content,
      reactionEmoji: (x.reactions || []).map((r) => r.emoji),
      nonUserAuthor: Model.isAuthoredByNonUser(x),
      mentions: (x.mentions || []).map((user) => user.id),
    }));
    const hasNextPage = results.length === messagesLimit;
    const endCursor =
      response.length > 0 ? response[response.length - 1].id : null;
    const pageInfo = {hasNextPage, endCursor};
    return {results, pageInfo};
  }
  \<close>
\<close>

definition messages_item :: "Model \<Rightarrow> DateParse \<Rightarrow> string \<Rightarrow> json \<Rightarrow> exn + Message" where
  "messages_item M Date_parse channel x =
     bindE (getProp x ''id'') (\<lambda>id.
     bindE (path x [''author'', ''id'']) (\<lambda>authorId.
     bindE (getProp x ''timestamp'') (\<lambda>timestamp.
     bindE (getProp x ''content'') (\<lambda>content.
     bindE (getProp x ''reactions'') (\<lambda>reactions.
     bindE (array_map (js_or reactions (JArr [])) (\<lambda>r. getProp r ''emoji'')) (\<lambda>reactionEmoji.
     bindE (isAuthoredByNonUser M x) (\<lambda>nonUserAuthor.
     bindE (getProp x ''mentions'') (\<lambda>mentions.
     bindE (array_map (js_or mentions (JArr [])) (\<lambda>user. getProp user ''id'')) (\<lambda>mentionIds.
       Inr \<lparr>message_id = id,
            message_channelId = channel,
            message_authorId = authorId,
            timestampMs = Date_parse timestamp,
            content = content,
            reactionEmoji = reactionEmoji,
            nonUserAuthor = nonUserAuthor,
            mentions = mentionIds\<rparr>)))))))))"

definition messages ::
  "Model \<Rightarrow> DateParse \<Rightarrow> 'w state \<Rightarrow> string \<Rightarrow> string
   \<Rightarrow> (exn + Message ResultPage) \<times> 'w state" where
  "messages M Date_parse s channel after =
     (let messagesLimit = messagesLimit (options (this s));
          endpoint = ''/channels/'' @ channel @ ''/messages?after='' @ after
                     @ ''&limit='' @ Number_toString messagesLimit;
          (r, s') = await_fetch s endpoint
      in (bindE r (\<lambda>response.
            bindE (asArray response) (\<lambda>raw.
            bindE (mapE (messages_item M Date_parse channel) raw) (\<lambda>results.
              let hasNextPage = (int (length results) = messagesLimit) in
              bindE (if length raw > 0
                     then getProp (raw ! (length raw - 1)) ''id''
                     else Inr JNull) (\<lambda>endCursor.
                Inr \<lparr>pageInfo = \<lparr>hasNextPage = hasNextPage, endCursor = endCursor\<rparr>,
                     results = results\<rparr>)))),
          s'))"

text \<open>
  \<^verbatim>\<open>
  async reactions(channel, message, emoji, after) {
    const {reactionsLimit} = this._options;
    const emojiRef = Model.emojiToRef(emoji);
    const endpoint = `/channels/${channel}/messages/${message}/reactions/${emojiRef}?after=${after}&limit=${reactionsLimit}`;
    const response = await this._fetch(endpoint);
    const results = response.map((x) => ({
      emoji: x.emoji,
      channelId: channel,
      messageId: message,
      authorId: x.id,
    }));
    const hasNextPage = results.length === reactionsLimit;
    const endCursor =
      response.length > 0 ? response[response.length - 1].id : null;
    const pageInfo = {hasNextPage, endCursor};
    return {results, pageInfo};
  }
  \<close>
  \<^verbatim>\<open>Model.emojiToRef(emoji)\<close> runs before the request: when it throws, the method
  rejects with what it threw and the transport is not invoked.
\<close>

definition reactions_item :: "string \<Rightarrow> string \<Rightarrow> json \<Rightarrow> exn + Reaction" where
  "reactions_item channel message x =
     bindE (getProp x ''emoji'') (\<lambda>emoji.
     bindE (getProp x ''id'') (\<lambda>id.
       Inr \<lparr>reaction_emoji = emoji,
            reaction_channelId = channel,
            reaction_messageId = message,
            reaction_authorId = id\<rparr>))"

definition reactions ::
  "Model \<Rightarrow> 'w state \<Rightarrow> string \<Rightarrow> string \<Rightarrow> json \<Rightarrow> string
   \<Rightarrow> (exn + Reaction ResultPage) \<times> 'w state" where
  "reactions M s channel message emoji after =
     (let reactionsLimit = reactionsLimit (options (this s)) in
      case emojiToRef M emoji of
        Inl e \<Rightarrow> (Inl e, s)
      | Inr emojiRef \<Rightarrow>
         (let endpoint = ''/channels/'' @ channel @ ''/messages/'' @ message
                         @ ''/reactions/'' @ emojiRef @ ''?after='' @ after
                         @ ''&limit='' @ Number_toString reactionsLimit;
              (r, s') = await_fetch s endpoint
          in (bindE r (\<lambda>response.
                bindE (asArray response) (\<lambda>raw.
                bindE (mapE (reactions_item channel message) raw) (\<lambda>results.
                  let hasNextPage = (int (length results) = reactionsLimit) in
                  bindE (if length raw > 0
                         then getProp (raw ! (length raw - 1)) ''id''
                         else Inr JNull) (\<lambda>endCursor.
                    Inr \<lparr>pageInfo = \<lparr>hasNextPage = hasNextPage, endCursor = endCursor\<rparr>,
                         results = results\<rparr>)))),
              s')))"

section \<open>Transports and raw items of the test suite\<close>

text \<open>
  \<^verbatim>\<open>jest.fn(() => Promise.resolve(response))\<close> and a rejecting transport; \<open>jest_fn\<close>
  is the recording that \<^verbatim>\<open>jest.fn\<close> adds to a transport: every invocation appends its
  argument to \<^verbatim>\<open>mock.calls\<close>, kept beside the transport's own world.
\<close>

definition resolves :: "json \<Rightarrow> 'w FetchEndpoint" where
  "resolves response = (\<lambda>endpoint w. (Inr response, w))"

definition rejects :: "exn \<Rightarrow> 'w FetchEndpoint" where
  "rejects e = (\<lambda>endpoint w. (Inl e, w))"

definition jest_fn :: "'w FetchEndpoint \<Rightarrow> ('w \<times> string list) FetchEndpoint" where
  "jest_fn f = (\<lambda>endpoint (w, calls).
     case f endpoint w of (r, w') \<Rightarrow> (r, (w', calls @ [endpoint])))"

definition mock_calls :: "('w \<times> string list) state \<Rightarrow> string list" where
  "mock_calls s = snd (world s)"

definition testChannel :: "int \<Rightarrow> json" where
  "testChannel n = JObj [(''id'', JNum n), (''name'', JStr ''testChannelName''),
                          (''type'', JNum 0)]"

definition testMessage :: "int \<Rightarrow> json" where
  "testMessage n = JObj
     [(''id'', JNum n),
      (''author'', JObj [(''id'', JNum 2)]),
      (''timestamp'', JStr ''2020-03-03T23:35:10.615000+00:00''),
      (''content'', JStr ''Just going to drop this here''),
      (''reactions'', JArr [JObj [(''emoji'', JObj [(''id'', JNum 1), (''name'', JStr ''testemoji'')])]]),
      (''mentions'', JArr [JObj [(''id'', JNum 4), (''username'', JStr ''testuser'')]])]"

definition testMember :: "int \<Rightarrow> json" where
  "testMember userId = JObj
     [(''user'', JObj [(''id'', JNum userId), (''username'', JStr ''username''),
                       (''discriminator'', JStr ''disc''), (''bot'', JBool True)]),
      (''nick'', JStr ''nickname''),
      (''roles'', JArr [JStr ''test role''])]"

definition testOptions :: "int \<Rightarrow> FetchOptions" where
  "testOptions limit = \<lparr>guildId = ''1'', membersLimit = limit, messagesLimit = limit,
                         reactionsLimit = limit\<rparr>"

definition testFetcher :: "json \<Rightarrow> int \<Rightarrow> unit state" where
  "testFetcher response limit =
     \<lparr>this = Fetcher_new (resolves response) (testOptions limit), world = ()\<rparr>"

definition testEmoji :: json where
  "testEmoji = JObj [(''id'', JStr ''1''), (''name'', JStr ''emojiname'')]"

text \<open>
  Modelled from the spec: the emoji-reference encoder of \<^verbatim>\<open>./models\<close>, which is not among
  the sources. It takes the identifier and the name of the emoji object, so
  \<^verbatim>\<open>undefined\<close> and \<^verbatim>\<open>null\<close> in place of the object are a \<^verbatim>\<open>TypeError\<close>, and the reference
  is \<^verbatim>\<open>name:id\<close> when the emoji has an identifier. For an emoji without one the spec
  names no format; the model gives the name alone.
\<close>

definition emojiToRef_model :: "json \<Rightarrow> exn + string" where
  "emojiToRef_model emoji =
     bindE (getProp emoji ''id'') (\<lambda>id.
     bindE (getProp emoji ''name'') (\<lambda>name.
       Inr (if truthy id then js_toString name @ '':'' @ js_toString id
            else js_toString name)))"

text \<open>
  Stand-ins for the other collaborators in the examples below, with the values the
  expectations of \<^verbatim>\<open>fetcher.test.js\<close> give them: the channel type of \<^verbatim>\<open>testChannel\<close>,
  no message of a non-user author, and the epoch milliseconds of the timestamp of
  \<^verbatim>\<open>testMessage\<close>.
\<close>

definition testModel :: Model where
  "testModel = \<lparr>channelTypeFromId = (\<lambda>ty. Inr ''GUILD_TEXT''),
                 emojiToRef = emojiToRef_model,
                 isAuthoredByNonUser = (\<lambda>x. Inr False)\<rparr>"

definition testDateParse :: DateParse where
  "testDateParse v =
     (if v = JStr ''2020-03-03T23:35:10.615000+00:00'' then Some 1583278510615 else None)"

text \<open>
  The raw reaction of the test suite, \<^verbatim>\<open>{id: n, emoji}\<close>, and the records the suite
  expects for the raw items above.
\<close>

definition testReaction :: "int \<Rightarrow> json" where
  "testReaction n = JObj [(''id'', JNum n), (''emoji'', testEmoji)]"

definition testChannelObj :: "int \<Rightarrow> Channel" where
  "testChannelObj n = \<lparr>channel_id = JNum n, channel_name = JStr ''testChannelName'',
                        channel_type = ''GUILD_TEXT''\<rparr>"

definition testMemberObj :: "int \<Rightarrow> GuildMember" where
  "testMemberObj userId =
     \<lparr>user = \<lparr>user_id = JNum userId, username = JStr ''username'',
                discriminator = JStr ''disc'', bot = JBool True\<rparr>,
      nick = JStr ''nickname'',
      roles = JArr [JStr ''test role'']\<rparr>"

definition testMessageObj :: "int \<Rightarrow> string \<Rightarrow> Message" where
  "testMessageObj n channel =
     \<lparr>message_id = JNum n,
      message_channelId = channel,
      message_authorId = JNum 2,
      timestampMs = Some 1583278510615,
      content = JStr ''Just going to drop this here'',
      reactionEmoji = [JObj [(''id'', JNum 1), (''name'', JStr ''testemoji'')]],
      nonUserAuthor = False,
      mentions = [JNum 4]\<rparr>"

definition testReactionObj :: "int \<Rightarrow> string \<Rightarrow> string \<Rightarrow> Reaction" where
  "testReactionObj n channel message =
     \<lparr>reaction_emoji = testEmoji, reaction_channelId = channel,
      reaction_messageId = message, reaction_authorId = JNum n\<rparr>"

section \<open>Auxiliary facts\<close>

lemma bindE_Inl [simp]: "bindE (Inl e) k = Inl e"
  by (simp add: bindE_def)

lemma bindE_Inr [simp]: "bindE (Inr v) k = k v"
  by (simp add: bindE_def)

lemma bindE_eq_Inr: "bindE r k = Inr y \<longleftrightarrow> (\<exists>v. r = Inr v \<and> k v = Inr y)"
  by (cases r) simp_all

lemma asArray_JArr [simp]: "asArray (JArr xs) = Inr xs"
  by (simp add: asArray_def)

lemma asArray_eq_Inr: "asArray v = Inr xs \<longleftrightarrow> v = JArr xs"
  by (cases v) (simp_all add: asArray_def)

lemma mapE_eq_Inr: "mapE f xs = Inr ys \<longleftrightarrow> list_all2 (\<lambda>x y. f x = Inr y) xs ys"
proof (induction xs arbitrary: ys)
  case Nil
  show ?case by auto
next
  case (Cons x xs)
  show ?case
    by (auto simp: list_all2_Cons1 Cons.IH [symmetric] split: sum.splits)
qed

lemma mapE_length: "mapE f xs = Inr ys \<Longrightarrow> length ys = length xs"
  by (simp add: mapE_eq_Inr list_all2_lengthD)

lemma mapE_nth: "mapE f xs = Inr ys \<Longrightarrow> i < length xs \<Longrightarrow> f (xs ! i) = Inr (ys ! i)"
  using list_all2_nthD [of "\<lambda>x y. f x = Inr y" xs ys i] by (simp add: mapE_eq_Inr)

lemma await_fetch_fst: "fst (await_fetch s e) = fst (fetchEndpoint (this s) e (world s))"
  by (simp add: await_fetch_def split: prod.split)

lemma await_fetch_snd:
  "snd (await_fetch s e) = s\<lparr>world := snd (fetchEndpoint (this s) e (world s))\<rparr>"
  by (simp add: await_fetch_def split: prod.split)


lemma members_item_user_id:
  "members_item x = Inr m \<Longrightarrow> path x [''user'', ''id''] = Inr (user_id (user m))"
  by (auto simp: members_item_def bindE_eq_Inr split: if_splits)

lemma messages_item_id:
  "messages_item M D ch x = Inr m \<Longrightarrow> getProp x ''id'' = Inr (message_id m)"
  by (auto simp: messages_item_def bindE_eq_Inr)

lemma reactions_item_id:
  "reactions_item ch msg x = Inr r \<Longrightarrow> getProp x ''id'' = Inr (reaction_authorId r)"
  by (auto simp: reactions_item_def bindE_eq_Inr)

lemma members_Inr:
  assumes "fst (members s after) = Inr p"
  obtains raw where
    "fst (fetchEndpoint (this s)
       (''/guilds/'' @ guildId (options (this s)) @ ''/members?after='' @ after
        @ ''&limit='' @ Number_toString (membersLimit (options (this s)))) (world s))
     = Inr (JArr raw)"
    and "mapE members_item raw = Inr (results p)"
    and "hasNextPage (pageInfo p) = (int (length (results p)) = membersLimit (options (this s)))"
    and "raw = [] \<longrightarrow> endCursor (pageInfo p) = JNull"
    and "raw \<noteq> [] \<longrightarrow> path (last raw) [''user'', ''id''] = Inr (endCursor (pageInfo p))"
  using assms
  by (auto simp: members_def Let_def await_fetch_def bindE_eq_Inr asArray_eq_Inr last_conv_nth
      split: prod.splits if_splits)

lemma messages_Inr:
  assumes "fst (messages M D s channel after) = Inr p"
  obtains raw where
    "fst (fetchEndpoint (this s)
       (''/channels/'' @ channel @ ''/messages?after='' @ after
        @ ''&limit='' @ Number_toString (messagesLimit (options (this s)))) (world s))
     = Inr (JArr raw)"
    and "mapE (messages_item M D channel) raw = Inr (results p)"
    and "hasNextPage (pageInfo p) = (int (length (results p)) = messagesLimit (options (this s)))"
    and "raw = [] \<longrightarrow> endCursor (pageInfo p) = JNull"
    and "raw \<noteq> [] \<longrightarrow> getProp (last raw) ''id'' = Inr (endCursor (pageInfo p))"
  using assms
  by (auto simp: messages_def Let_def await_fetch_def bindE_eq_Inr asArray_eq_Inr last_conv_nth
      split: prod.splits if_splits)

lemma reactions_Inr:
  assumes "fst (reactions M s channel message emoji after) = Inr p"
  obtains raw eref where
    "emojiToRef M emoji = Inr eref"
    and "fst (fetchEndpoint (this s)
       (''/channels/'' @ channel @ ''/messages/'' @ message @ ''/reactions/''
        @ eref @ ''?after='' @ after
        @ ''&limit='' @ Number_toString (reactionsLimit (options (this s)))) (world s))
     = Inr (JArr raw)"
    and "mapE (reactions_item channel message) raw = Inr (results p)"
    and "hasNextPage (pageInfo p) = (int (length (results p)) = reactionsLimit (options (this s)))"
    and "raw = [] \<longrightarrow> endCursor (pageInfo p) = JNull"
    and "raw \<noteq> [] \<longrightarrow> getProp (last raw) ''id'' = Inr (endCursor (pageInfo p))"
proof (cases "emojiToRef M emoji")
  case (Inl x)
  with assms show ?thesis by (simp add: reactions_def Let_def)
next
  case (Inr eref)
  with assms that [of eref] show ?thesis
    by (auto simp: reactions_def Let_def await_fetch_def bindE_eq_Inr asArray_eq_Inr
        last_conv_nth split: prod.splits if_splits)
qed

lemma channels_Inr:
  assumes "fst (channels M s) = Inr cs"
  obtains raw where
    "fst (fetchEndpoint (this s)
       (''/guilds/'' @ guildId (options (this s)) @ ''/channels'') (world s))
     = Inr (JArr raw)"
    and "mapE (channels_item M) raw = Inr cs"
  using assms
  by (auto simp: channels_def Let_def await_fetch_def bindE_eq_Inr asArray_eq_Inr
      split: prod.splits)

lemma mapE_last:
  "mapE f xs = Inr ys \<Longrightarrow> xs \<noteq> [] \<Longrightarrow> f (last xs) = Inr (last ys)"
proof -
  assume m: "mapE f xs = Inr ys" and ne: "xs \<noteq> []"
  from m have len: "length ys = length xs" by (rule mapE_length)
  with ne have ne': "ys \<noteq> []" by auto
  from ne have "length xs - 1 < length xs" by (cases xs) simp_all
  from mapE_nth [OF m this] show ?thesis
    by (simp add: last_conv_nth ne ne' len)
qed

lemma members_ok:
  assumes "fst (fetchEndpoint (this s)
       (''/guilds/'' @ guildId (options (this s)) @ ''/members?after='' @ after
        @ ''&limit='' @ Number_toString (membersLimit (options (this s)))) (world s))
     = Inr (JArr raw)"
    and "mapE members_item raw = Inr rs"
  shows "fst (members s after) =
     Inr \<lparr>pageInfo = \<lparr>hasNextPage = (int (length rs) = membersLimit (options (this s))),
                       endCursor = (if raw = [] then JNull else user_id (user (last rs)))\<rparr>,
          results = rs\<rparr>"
proof (cases "raw = []")
  case True
  with assms show ?thesis
    by (simp add: members_def Let_def split_beta await_fetch_fst)
next
  case False
  from mapE_last [OF assms(2) False]
  have "path (last raw) [''user'', ''id''] = Inr (user_id (user (last rs)))"
    by (rule members_item_user_id)
  with False assms show ?thesis
    by (simp add: members_def Let_def split_beta await_fetch_fst last_conv_nth)
qed

lemma messages_ok:
  assumes "fst (fetchEndpoint (this s)
       (''/channels/'' @ channel @ ''/messages?after='' @ after
        @ ''&limit='' @ Number_toString (messagesLimit (options (this s)))) (world s))
     = Inr (JArr raw)"
    and "mapE (messages_item M D channel) raw = Inr rs"
  shows "fst (messages M D s channel after) =
     Inr \<lparr>pageInfo = \<lparr>hasNextPage = (int (length rs) = messagesLimit (options (this s))),
                       endCursor = (if raw = [] then JNull else message_id (last rs))\<rparr>,
          results = rs\<rparr>"
proof (cases "raw = []")
  case True
  with assms show ?thesis
    by (simp add: messages_def Let_def split_beta await_fetch_fst)
next
  case False
  from mapE_last [OF assms(2) False]
  have "getProp (last raw) ''id'' = Inr (message_id (last rs))"
    by (rule messages_item_id)
  with False assms show ?thesis
    by (simp add: messages_def Let_def split_beta await_fetch_fst last_conv_nth)
qed

lemma reactions_ok:
  assumes "emojiToRef M emoji = Inr eref"
    and "fst (fetchEndpoint (this s)
       (''/channels/'' @ channel @ ''/messages/'' @ message @ ''/reactions/''
        @ eref @ ''?after='' @ after
        @ ''&limit='' @ Number_toString (reactionsLimit (options (this s)))) (world s))
     = Inr (JArr raw)"
    and "mapE (reactions_item channel message) raw = Inr rs"
  shows "fst (reactions M s channel message emoji after) =
     Inr \<lparr>pageInfo = \<lparr>hasNextPage = (int (length rs) = reactionsLimit (options (this s))),
                       endCursor = (if raw = [] then JNull else reaction_authorId (last rs))\<rparr>,
          results = rs\<rparr>"
proof (cases "raw = []")
  case True
  with assms show ?thesis
    by (simp add: reactions_def Let_def split_beta await_fetch_fst)
next
  case False
  from mapE_last [OF assms(3) False]
  have "getProp (last raw) ''id'' = Inr (reaction_authorId (last rs))"
    by (rule reactions_item_id)
  with False assms show ?thesis
    by (simp add: reactions_def Let_def split_beta await_fetch_fst last_conv_nth)
qed

lemma channels_ok:
  assumes "fst (fetchEndpoint (this s)
       (''/guilds/'' @ guildId (options (this s)) @ ''/channels'') (world s))
     = Inr (JArr raw)"
    and "mapE (channels_item M) raw = Inr cs"
  shows "fst (channels M s) = Inr cs"
  using assms by (simp add: channels_def Let_def split_beta await_fetch_fst)

text \<open>The state after a method is the state after its one request.\<close>

lemma guild_snd:
  "snd (guild s) = snd (await_fetch s (''guilds/'' @ guildId (options (this s))))"
  by (simp add: guild_def Let_def split_beta)

lemma channels_snd:
  "snd (channels M s) =
   snd (await_fetch s (''/guilds/'' @ guildId (options (this s)) @ ''/channels''))"
  by (simp add: channels_def Let_def split_beta)

lemma members_snd:
  "snd (members s after) =
   snd (await_fetch s (''/guilds/'' @ guildId (options (this s)) @ ''/members?after='' @ after
        @ ''&limit='' @ Number_toString (membersLimit (options (this s)))))"
  by (simp add: members_def Let_def split_beta)

lemma messages_snd:
  "snd (messages M D s channel after) =
   snd (await_fetch s (''/channels/'' @ channel @ ''/messages?after='' @ after
        @ ''&limit='' @ Number_toString (messagesLimit (options (this s)))))"
  by (simp add: messages_def Let_def split_beta)

lemma reactions_snd:
  "emojiToRef M emoji = Inr eref \<Longrightarrow>
   snd (reactions M s channel message emoji after) =
   snd (await_fetch s (''/channels/'' @ channel @ ''/messages/'' @ message @ ''/reactions/''
        @ eref @ ''?after='' @ after
        @ ''&limit='' @ Number_toString (reactionsLimit (options (this s)))))"
  by (simp add: reactions_def Let_def split_beta)

lemma reactions_throws:
  "emojiToRef M emoji = Inl x \<Longrightarrow>
   reactions M s channel message emoji after = (Inl x, s)"
  by (simp add: reactions_def Let_def)

lemma guild_Inl:
  "fst (await_fetch s (''guilds/'' @ guildId (options (this s)))) = Inl e
   \<Longrightarrow> fst (guild s) = Inl e"
  by (simp add: guild_def Let_def split_beta)

lemma channels_Inl:
  "fst (await_fetch s (''/guilds/'' @ guildId (options (this s)) @ ''/channels'')) = Inl e
   \<Longrightarrow> fst (channels M s) = Inl e"
  by (simp add: channels_def Let_def split_beta)

lemma members_Inl:
  "fst (await_fetch s (''/guilds/'' @ guildId (options (this s)) @ ''/members?after='' @ after
        @ ''&limit='' @ Number_toString (membersLimit (options (this s))))) = Inl e
   \<Longrightarrow> fst (members s after) = Inl e"
  by (simp add: members_def Let_def split_beta)

lemma messages_Inl:
  "fst (await_fetch s (''/channels/'' @ channel @ ''/messages?after='' @ after
        @ ''&limit='' @ Number_toString (messagesLimit (options (this s))))) = Inl e
   \<Longrightarrow> fst (messages M D s channel after) = Inl e"
  by (simp add: messages_def Let_def split_beta)

lemma reactions_Inl:
  "emojiToRef M emoji = Inr eref \<Longrightarrow>
   fst (await_fetch s (''/channels/'' @ channel @ ''/messages/'' @ message @ ''/reactions/''
        @ eref @ ''?after='' @ after
        @ ''&limit='' @ Number_toString (reactionsLimit (options (this s))))) = Inl e
   \<Longrightarrow> fst (reactions M s channel message emoji after) = Inl e"
  by (simp add: reactions_def Let_def split_beta)

lemma await_fetch_jest_fn:
  "mock_calls (snd (await_fetch \<lparr>this = Fetcher_new (jest_fn f) opts, world = (w, calls)\<rparr> e))
   = calls @ [e]"
  by (simp add: await_fetch_def Fetcher_new_def jest_fn_def mock_calls_def split: prod.splits)

subsection \<open>The methods on the transports of the test suite\<close>

lemma testMember_item: "members_item (testMember n) = Inr (testMemberObj n)"
  by (simp add: members_item_def testMember_def testMemberObj_def js_or_def)

lemma testMessage_item:
  "messages_item testModel testDateParse channel (testMessage n) = Inr (testMessageObj n channel)"
  by (simp add: messages_item_def testMessage_def testMessageObj_def js_or_def array_map_def
      testModel_def testDateParse_def)

lemma testReaction_item:
  "reactions_item channel message (testReaction n) = Inr (testReactionObj n channel message)"
  by (simp add: reactions_item_def testReaction_def testReactionObj_def)

lemma testChannel_item: "channels_item testModel (testChannel n) = Inr (testChannelObj n)"
  by (simp add: channels_item_def testChannel_def testChannelObj_def testModel_def)

lemma testFetcher_response:
  "fst (fetchEndpoint (this (testFetcher response limit)) endpoint w) = Inr response"
  by (simp add: testFetcher_def Fetcher_new_def resolves_def)

lemma testFetcher_limits:
  "membersLimit (options (this (testFetcher response limit))) = limit"
  "messagesLimit (options (this (testFetcher response limit))) = limit"
  "reactionsLimit (options (this (testFetcher response limit))) = limit"
  by (simp_all add: testFetcher_def Fetcher_new_def testOptions_def)

lemma test_members:
  "mapE members_item raw = Inr rs \<Longrightarrow>
   fst (members (testFetcher (JArr raw) limit) after) =
     Inr \<lparr>pageInfo = \<lparr>hasNextPage = (int (length rs) = limit),
                       endCursor = (if raw = [] then JNull else user_id (user (last rs)))\<rparr>,
          results = rs\<rparr>"
  using members_ok [of "testFetcher (JArr raw) limit" after raw rs]
  by (simp add: testFetcher_response testFetcher_limits)

lemma test_messages:
  "mapE (messages_item M D channel) raw = Inr rs \<Longrightarrow>
   fst (messages M D (testFetcher (JArr raw) limit) channel after) =
     Inr \<lparr>pageInfo = \<lparr>hasNextPage = (int (length rs) = limit),
                       endCursor = (if raw = [] then JNull else message_id (last rs))\<rparr>,
          results = rs\<rparr>"
  using messages_ok [of "testFetcher (JArr raw) limit" channel after raw M D rs]
  by (simp add: testFetcher_response testFetcher_limits)

lemma testEmoji_ref: "emojiToRef testModel testEmoji = Inr ''emojiname:1''"
  by (simp add: testModel_def emojiToRef_model_def testEmoji_def)

lemma test_reactions:
  "mapE (reactions_item channel message) raw = Inr rs \<Longrightarrow>
   fst (reactions testModel (testFetcher (JArr raw) limit) channel message testEmoji after) =
     Inr \<lparr>pageInfo = \<lparr>hasNextPage = (int (length rs) = limit),
                       endCursor = (if raw = [] then JNull else reaction_authorId (last rs))\<rparr>,
          results = rs\<rparr>"
  using reactions_ok [OF testEmoji_ref, of "testFetcher (JArr raw) limit" channel message
      after raw rs]
  by (simp add: testFetcher_response testFetcher_limits)

lemma test_await: "fst (await_fetch (testFetcher response limit) e) = Inr response"
  by (simp add: await_fetch_fst testFetcher_response)

lemma test_channels:
  "mapE (channels_item M) raw = Inr cs \<Longrightarrow>
   fst (channels M (testFetcher (JArr raw) limit)) = Inr cs"
  using channels_ok [of "testFetcher (JArr raw) limit" raw M cs]
  by (simp add: testFetcher_response)

lemma test_members_page:
  "fst (members (testFetcher (JArr [testMember 1, testMember 2]) 2) ''0'') =
     Inr \<lparr>pageInfo = \<lparr>hasNextPage = True, endCursor = JNum 2\<rparr>,
          results = [testMemberObj 1, testMemberObj 2]\<rparr>"
  using test_members [of "[testMember 1, testMember 2]" "[testMemberObj 1, testMemberObj 2]"
      2 "''0''"]
  by (simp add: testMember_item) (simp add: testMemberObj_def)

lemma test_messages_page:
  "fst (messages testModel testDateParse (testFetcher (JArr [testMessage 1, testMessage 2]) 2)
         ''123'' ''0'') =
     Inr \<lparr>pageInfo = \<lparr>hasNextPage = True, endCursor = JNum 2\<rparr>,
          results = [testMessageObj 1 ''123'', testMessageObj 2 ''123'']\<rparr>"
  using test_messages [of testModel testDateParse "''123''" "[testMessage 1, testMessage 2]"
      "[testMessageObj 1 ''123'', testMessageObj 2 ''123'']" 2 "''0''"]
  by (simp add: testMessage_item) (simp add: testMessageObj_def)

lemma test_reactions_page:
  "fst (reactions testModel (testFetcher (JArr [testReaction 1, testReaction 2]) 2)
         ''1'' ''2'' testEmoji ''0'') =
     Inr \<lparr>pageInfo = \<lparr>hasNextPage = True, endCursor = JNum 2\<rparr>,
          results = [testReactionObj 1 ''1'' ''2'', testReactionObj 2 ''1'' ''2'']\<rparr>"
  using test_reactions [of "''1''" "''2''" "[testReaction 1, testReaction 2]"
      "[testReactionObj 1 ''1'' ''2'', testReactionObj 2 ''1'' ''2'']" 2 "''0''"]
  by (simp add: testReaction_item) (simp add: testReactionObj_def)

lemma test_channels_list:
  "fst (channels testModel (testFetcher (JArr [testChannel 1, testChannel 2]) 2)) =
     Inr [testChannelObj 1, testChannelObj 2]"
  by (rule test_channels) (simp add: testChannel_item)

subsection \<open>Normalizing one raw item\<close>

lemma getProp_other:
  assumes "getProp v k = Inr a"
  obtains b where "getProp v k' = Inr b"
  using assms by (cases v) simp_all

lemma members_item_reads:
  assumes "getProp x ''user'' = Inr u"
    and "getProp u ''id'' = Inr i"
    and "getProp u ''username'' = Inr un"
    and "getProp u ''discriminator'' = Inr d"
    and "getProp u ''bot'' = Inr b"
    and "getProp u ''system'' = Inr sy"
    and "getProp x ''nick'' = Inr n"
    and "getProp x ''roles'' = Inr r"
  shows "members_item x =
     Inr \<lparr>user = \<lparr>user_id = i, username = un, discriminator = d,
                  bot = js_or (js_or b sy) (JBool False)\<rparr>,
          nick = js_or n JNull, roles = r\<rparr>"
  using assms by (simp add: members_item_def js_or_def)

lemma members_item_Inr:
  assumes "members_item x = Inr m"
  obtains u i un d b sy n r where
    "getProp x ''user'' = Inr u"
    and "getProp u ''id'' = Inr i"
    and "getProp u ''username'' = Inr un"
    and "getProp u ''discriminator'' = Inr d"
    and "getProp u ''bot'' = Inr b"
    and "getProp u ''system'' = Inr sy"
    and "getProp x ''nick'' = Inr n"
    and "getProp x ''roles'' = Inr r"
    and "m = \<lparr>user = \<lparr>user_id = i, username = un, discriminator = d,
                      bot = js_or (js_or b sy) (JBool False)\<rparr>,
              nick = js_or n JNull, roles = r\<rparr>"
proof -
  from assms have "\<exists>i. path x [''user'', ''id''] = Inr i"
    unfolding members_item_def bindE_eq_Inr by (elim exE conjE) (rule exI)
  then obtain u i where u: "getProp x ''user'' = Inr u" and i: "getProp u ''id'' = Inr i"
    by (auto simp: bindE_eq_Inr)
  from i obtain un where un: "getProp u ''username'' = Inr un" by (rule getProp_other)
  from i obtain d where d: "getProp u ''discriminator'' = Inr d" by (rule getProp_other)
  from i obtain b where b: "getProp u ''bot'' = Inr b" by (rule getProp_other)
  from i obtain sy where sy: "getProp u ''system'' = Inr sy" by (rule getProp_other)
  from u obtain n where n: "getProp x ''nick'' = Inr n" by (rule getProp_other)
  from u obtain r where r: "getProp x ''roles'' = Inr r" by (rule getProp_other)
  from members_item_reads [OF u i un d b sy n r] assms
  have "m = \<lparr>user = \<lparr>user_id = i, username = un, discriminator = d,
                     bot = js_or (js_or b sy) (JBool False)\<rparr>,
             nick = js_or n JNull, roles = r\<rparr>"
    by simp
  with u i un d b sy n r show ?thesis by (rule that)
qed

lemma js_or_flags:
  "optional_boolean b \<Longrightarrow> optional_boolean sy \<Longrightarrow>
   js_or (js_or b sy) (JBool False) = JBool (b = JBool True \<or> sy = JBool True)"
  by (cases b; cases sy) (auto simp: js_or_def)

lemma array_map_or_empty:
  assumes "array_map (js_or v (JArr [])) f = Inr ys"
  shows "(\<not> truthy v \<longrightarrow> ys = []) \<and>
         (\<forall>es. v = JArr es \<longrightarrow>
            length ys = length es \<and> (\<forall>i<length es. f (es ! i) = Inr (ys ! i)))"
proof (cases "truthy v")
  case False
  with assms have "ys = []"
    by (simp add: js_or_def array_map_def)
  with False show ?thesis by auto
next
  case True
  with assms have "\<exists>xs. v = JArr xs \<and> mapE f xs = Inr ys"
    by (simp add: js_or_def array_map_def bindE_eq_Inr asArray_eq_Inr)
  then obtain xs where v: "v = JArr xs" and m: "mapE f xs = Inr ys" by blast
  from m have "length ys = length xs" and "\<forall>i<length xs. f (xs ! i) = Inr (ys ! i)"
    by (simp_all add: mapE_length mapE_nth)
  with v True show ?thesis by simp
qed

lemma messages_item_Inr:
  assumes "messages_item M D channel x = Inr msg"
  obtains i a ts c rs ms where
    "getProp x ''id'' = Inr i"
    and "path x [''author'', ''id''] = Inr a"
    and "getProp x ''timestamp'' = Inr ts"
    and "getProp x ''content'' = Inr c"
    and "getProp x ''reactions'' = Inr rs"
    and "array_map (js_or rs (JArr [])) (\<lambda>r. getProp r ''emoji'') = Inr (reactionEmoji msg)"
    and "getProp x ''mentions'' = Inr ms"
    and "array_map (js_or ms (JArr [])) (\<lambda>user. getProp user ''id'') = Inr (mentions msg)"
    and "msg = \<lparr>message_id = i, message_channelId = channel, message_authorId = a,
               timestampMs = D ts, content = c, reactionEmoji = reactionEmoji msg,
               nonUserAuthor = nonUserAuthor msg, mentions = mentions msg\<rparr>"
  using assms unfolding messages_item_def bindE_eq_Inr by fastforce

section \<open>Page completion\<close>

text \<open>
  C1. Whenever \<^verbatim>\<open>members\<close>, \<^verbatim>\<open>messages\<close> or \<^verbatim>\<open>reactions\<close> returns a page, its
  \<^verbatim>\<open>hasNextPage\<close> is true if and only if the number of normalized results equals the
  limit configured for that resource, whatever the limit and the size of the response.
\<close>

theorem hasNextPage_iff_limit:
  "(fst (members s after) = Inr p1 \<longrightarrow>
      (hasNextPage (pageInfo p1) \<longleftrightarrow>
       int (length (results p1)) = membersLimit (options (this s)))) \<and>
   (fst (messages M D s channel after) = Inr p2 \<longrightarrow>
      (hasNextPage (pageInfo p2) \<longleftrightarrow>
       int (length (results p2)) = messagesLimit (options (this s)))) \<and>
   (fst (reactions M s channel message emoji after) = Inr p3 \<longrightarrow>
      (hasNextPage (pageInfo p3) \<longleftrightarrow>
       int (length (results p3)) = reactionsLimit (options (this s))))"
proof (intro conjI impI)
  assume "fst (members s after) = Inr p1"
  then show "hasNextPage (pageInfo p1) \<longleftrightarrow>
      int (length (results p1)) = membersLimit (options (this s))"
    by (rule members_Inr)
next
  assume "fst (messages M D s channel after) = Inr p2"
  then show "hasNextPage (pageInfo p2) \<longleftrightarrow>
      int (length (results p2)) = messagesLimit (options (this s))"
    by (rule messages_Inr)
next
  assume "fst (reactions M s channel message emoji after) = Inr p3"
  then show "hasNextPage (pageInfo p3) \<longleftrightarrow>
      int (length (results p3)) = reactionsLimit (options (this s))"
    by (rule reactions_Inr)
qed

theorem hasNextPage_iff_limit_witness:
  "fst (members (testFetcher (JArr [testMember 1]) 1) ''0'') =
     Inr \<lparr>pageInfo = \<lparr>hasNextPage = True, endCursor = JNum 1\<rparr>,
          results = [testMemberObj 1]\<rparr> \<and>
   fst (messages testModel testDateParse (testFetcher (JArr [testMessage 1]) 2) ''123'' ''0'') =
     Inr \<lparr>pageInfo = \<lparr>hasNextPage = False, endCursor = JNum 1\<rparr>,
          results = [testMessageObj 1 ''123'']\<rparr> \<and>
   fst (reactions testModel (testFetcher (JArr [testReaction 1, testReaction 2]) 2)
          ''1'' ''2'' testEmoji ''0'') =
     Inr \<lparr>pageInfo = \<lparr>hasNextPage = True, endCursor = JNum 2\<rparr>,
          results = [testReactionObj 1 ''1'' ''2'', testReactionObj 2 ''1'' ''2'']\<rparr>"
proof -
  let ?s1 = "testFetcher (JArr [testMember 1]) 1"
  let ?s2 = "testFetcher (JArr [testMessage 1]) 2"
  let ?s3 = "testFetcher (JArr [testReaction 1, testReaction 2]) 2"
  have m: "fst (members ?s1 ''0'') =
     Inr \<lparr>pageInfo = \<lparr>hasNextPage = (int (length [testMemberObj 1]) = 1),
          endCursor = JNum 1\<rparr>, results = [testMemberObj 1]\<rparr>"
    using test_members [of "[testMember 1]" "[testMemberObj 1]" 1 "''0''"]
    by (simp add: testMember_item) (simp add: testMemberObj_def)
  have g: "fst (messages testModel testDateParse ?s2 ''123'' ''0'') =
     Inr \<lparr>pageInfo = \<lparr>hasNextPage = (int (length [testMessageObj 1 ''123'']) = 2),
          endCursor = JNum 1\<rparr>, results = [testMessageObj 1 ''123'']\<rparr>"
    using test_messages [of testModel testDateParse "''123''" "[testMessage 1]"
        "[testMessageObj 1 ''123'']" 2 "''0''"]
    by (simp add: testMessage_item) (simp add: testMessageObj_def)
  have r: "fst (reactions testModel ?s3 ''1'' ''2'' testEmoji ''0'') =
     Inr \<lparr>pageInfo = \<lparr>hasNextPage =
            (int (length [testReactionObj 1 ''1'' ''2'', testReactionObj 2 ''1'' ''2'']) = 2),
          endCursor = JNum 2\<rparr>,
          results = [testReactionObj 1 ''1'' ''2'', testReactionObj 2 ''1'' ''2'']\<rparr>"
    using test_reactions [of "''1''" "''2''" "[testReaction 1, testReaction 2]"
        "[testReactionObj 1 ''1'' ''2'', testReactionObj 2 ''1'' ''2'']" 2 "''0''"]
    by (simp add: testReaction_item) (simp add: testReactionObj_def)
  from m g r
    hasNextPage_iff_limit [where s = ?s1 and after = "''0''", THEN conjunct1, rule_format, OF m]
    hasNextPage_iff_limit [where s = ?s2 and M = testModel and D = testDateParse
      and channel = "''123''" and after = "''0''", THEN conjunct2, THEN conjunct1, rule_format, OF g]
    hasNextPage_iff_limit [where s = ?s3 and M = testModel and channel = "''1''"
      and message = "''2''" and emoji = testEmoji and after = "''0''",
      THEN conjunct2, THEN conjunct2, rule_format, OF r]
  show ?thesis by (simp add: testFetcher_limits)
qed


text \<open>
  C2 (as amended). Whenever \<^verbatim>\<open>members\<close>, \<^verbatim>\<open>messages\<close> or \<^verbatim>\<open>reactions\<close> returns a
  page for the raw response list \<open>raw\<close>: \<^verbatim>\<open>endCursor\<close> is \<^verbatim>\<open>null\<close> when \<open>raw\<close> is empty, and
  is the identifying field of the last element of \<open>raw\<close> when it is not
  (\<^verbatim>\<open>user.id\<close> of a member, \<^verbatim>\<open>id\<close> of a message or reaction). So a cursor that is not
  \<^verbatim>\<open>null\<close> tells that \<open>raw\<close> is not empty; the converse depends on the identifying field
  of the last raw element, which is passed through as it is. (The request of
  \<^verbatim>\<open>reactions\<close> carries the reference \<open>eref\<close> that the encoder returned.)
\<close>

theorem endCursor_last_raw_id:
  fixes s :: "'w state"
  defines "opts \<equiv> options (this s)"
  shows
   "(fst (await_fetch s (''/guilds/'' @ guildId opts @ ''/members?after='' @ c
            @ ''&limit='' @ Number_toString (membersLimit opts))) = Inr (JArr raw) \<longrightarrow>
     fst (members s c) = Inr p1 \<longrightarrow>
       (raw = [] \<longrightarrow> endCursor (pageInfo p1) = JNull) \<and>
       (raw \<noteq> [] \<longrightarrow> path (last raw) [''user'', ''id''] = Inr (endCursor (pageInfo p1))) \<and>
       (endCursor (pageInfo p1) \<noteq> JNull \<longrightarrow> raw \<noteq> [])) \<and>
    (fst (await_fetch s (''/channels/'' @ ch @ ''/messages?after='' @ c
            @ ''&limit='' @ Number_toString (messagesLimit opts))) = Inr (JArr raw) \<longrightarrow>
     fst (messages M D s ch c) = Inr p2 \<longrightarrow>
       (raw = [] \<longrightarrow> endCursor (pageInfo p2) = JNull) \<and>
       (raw \<noteq> [] \<longrightarrow> getProp (last raw) ''id'' = Inr (endCursor (pageInfo p2))) \<and>
       (endCursor (pageInfo p2) \<noteq> JNull \<longrightarrow> raw \<noteq> [])) \<and>
    (emojiToRef M emoji = Inr eref \<longrightarrow>
     fst (await_fetch s (''/channels/'' @ ch @ ''/messages/'' @ m @ ''/reactions/''
            @ eref @ ''?after='' @ c
            @ ''&limit='' @ Number_toString (reactionsLimit opts))) = Inr (JArr raw) \<longrightarrow>
     fst (reactions M s ch m emoji c) = Inr p3 \<longrightarrow>
       (raw = [] \<longrightarrow> endCursor (pageInfo p3) = JNull) \<and>
       (raw \<noteq> [] \<longrightarrow> getProp (last raw) ''id'' = Inr (endCursor (pageInfo p3))) \<and>
       (endCursor (pageInfo p3) \<noteq> JNull \<longrightarrow> raw \<noteq> []))"
proof (intro conjI impI)
  assume r: "fst (await_fetch s (''/guilds/'' @ guildId opts @ ''/members?after='' @ c
            @ ''&limit='' @ Number_toString (membersLimit opts))) = Inr (JArr raw)"
    and ok: "fst (members s c) = Inr p1"
  from ok obtain raw' where
    "fst (fetchEndpoint (this s)
       (''/guilds/'' @ guildId (options (this s)) @ ''/members?after='' @ c
        @ ''&limit='' @ Number_toString (membersLimit (options (this s)))) (world s))
     = Inr (JArr raw')"
    and "mapE members_item raw' = Inr (results p1)"
    and "hasNextPage (pageInfo p1) = (int (length (results p1)) = membersLimit (options (this s)))"
    and e: "raw' = [] \<longrightarrow> endCursor (pageInfo p1) = JNull"
    and l: "raw' \<noteq> [] \<longrightarrow> path (last raw') [''user'', ''id''] = Inr (endCursor (pageInfo p1))"
    by (rule members_Inr)
  with r have eq: "raw' = raw" by (simp add: await_fetch_fst opts_def)
  { assume "raw = []" with e eq show "endCursor (pageInfo p1) = JNull" by simp }
  { assume "raw \<noteq> []" with l eq
    show "path (last raw) [''user'', ''id''] = Inr (endCursor (pageInfo p1))" by simp }
  { assume "endCursor (pageInfo p1) \<noteq> JNull" with e eq show "raw \<noteq> []" by auto }
next
  assume r: "fst (await_fetch s (''/channels/'' @ ch @ ''/messages?after='' @ c
            @ ''&limit='' @ Number_toString (messagesLimit opts))) = Inr (JArr raw)"
    and ok: "fst (messages M D s ch c) = Inr p2"
  from ok obtain raw' where
    "fst (fetchEndpoint (this s)
       (''/channels/'' @ ch @ ''/messages?after='' @ c
        @ ''&limit='' @ Number_toString (messagesLimit (options (this s)))) (world s))
     = Inr (JArr raw')"
    and "mapE (messages_item M D ch) raw' = Inr (results p2)"
    and "hasNextPage (pageInfo p2) = (int (length (results p2)) = messagesLimit (options (this s)))"
    and e: "raw' = [] \<longrightarrow> endCursor (pageInfo p2) = JNull"
    and l: "raw' \<noteq> [] \<longrightarrow> getProp (last raw') ''id'' = Inr (endCursor (pageInfo p2))"
    by (rule messages_Inr)
  with r have eq: "raw' = raw" by (simp add: await_fetch_fst opts_def)
  { assume "raw = []" with e eq show "endCursor (pageInfo p2) = JNull" by simp }
  { assume "raw \<noteq> []" with l eq
    show "getProp (last raw) ''id'' = Inr (endCursor (pageInfo p2))" by simp }
  { assume "endCursor (pageInfo p2) \<noteq> JNull" with e eq show "raw \<noteq> []" by auto }
next
  assume er: "emojiToRef M emoji = Inr eref"
    and r: "fst (await_fetch s (''/channels/'' @ ch @ ''/messages/'' @ m @ ''/reactions/''
            @ eref @ ''?after='' @ c
            @ ''&limit='' @ Number_toString (reactionsLimit opts))) = Inr (JArr raw)"
    and ok: "fst (reactions M s ch m emoji c) = Inr p3"
  from ok obtain raw' eref' where
    er': "emojiToRef M emoji = Inr eref'"
    and "fst (fetchEndpoint (this s)
       (''/channels/'' @ ch @ ''/messages/'' @ m @ ''/reactions/''
        @ eref' @ ''?after='' @ c
        @ ''&limit='' @ Number_toString (reactionsLimit (options (this s)))) (world s))
     = Inr (JArr raw')"
    and "mapE (reactions_item ch m) raw' = Inr (results p3)"
    and "hasNextPage (pageInfo p3) = (int (length (results p3)) = reactionsLimit (options (this s)))"
    and e: "raw' = [] \<longrightarrow> endCursor (pageInfo p3) = JNull"
    and l: "raw' \<noteq> [] \<longrightarrow> getProp (last raw') ''id'' = Inr (endCursor (pageInfo p3))"
    by (rule reactions_Inr)
  with r er er' have eq: "raw' = raw" by (simp add: await_fetch_fst opts_def)
  { assume "raw = []" with e eq show "endCursor (pageInfo p3) = JNull" by simp }
  { assume "raw \<noteq> []" with l eq
    show "getProp (last raw) ''id'' = Inr (endCursor (pageInfo p3))" by simp }
  { assume "endCursor (pageInfo p3) \<noteq> JNull" with e eq show "raw \<noteq> []" by auto }
qed

text \<open>
  The cursors of the test suite: two raw members, messages and reactions with the
  identifiers 1 and 2 give the cursor 2, the identifying field of the last raw item;
  the empty response gives the cursor \<^verbatim>\<open>null\<close>.
\<close>

theorem endCursor_last_raw_id_witness:
  "fst (members (testFetcher (JArr [testMember 1, testMember 2]) 2) ''0'') =
     Inr \<lparr>pageInfo = \<lparr>hasNextPage = True, endCursor = JNum 2\<rparr>,
          results = [testMemberObj 1, testMemberObj 2]\<rparr> \<and>
   path (last [testMember 1, testMember 2]) [''user'', ''id''] = Inr (JNum 2) \<and>
   fst (messages testModel testDateParse (testFetcher (JArr [testMessage 1, testMessage 2]) 2)
         ''123'' ''0'') =
     Inr \<lparr>pageInfo = \<lparr>hasNextPage = True, endCursor = JNum 2\<rparr>,
          results = [testMessageObj 1 ''123'', testMessageObj 2 ''123'']\<rparr> \<and>
   getProp (last [testMessage 1, testMessage 2]) ''id'' = Inr (JNum 2) \<and>
   fst (reactions testModel (testFetcher (JArr [testReaction 1, testReaction 2]) 2)
         ''1'' ''2'' testEmoji ''0'') =
     Inr \<lparr>pageInfo = \<lparr>hasNextPage = True, endCursor = JNum 2\<rparr>,
          results = [testReactionObj 1 ''1'' ''2'', testReactionObj 2 ''1'' ''2'']\<rparr> \<and>
   getProp (last [testReaction 1, testReaction 2]) ''id'' = Inr (JNum 2) \<and>
   fst (members (testFetcher (JArr []) 2) ''0'') =
     Inr \<lparr>pageInfo = \<lparr>hasNextPage = False, endCursor = JNull\<rparr>, results = []\<rparr> \<and>
   fst (messages testModel testDateParse (testFetcher (JArr []) 2) ''123'' ''0'') =
     Inr \<lparr>pageInfo = \<lparr>hasNextPage = False, endCursor = JNull\<rparr>, results = []\<rparr> \<and>
   fst (reactions testModel (testFetcher (JArr []) 2) ''1'' ''2'' testEmoji ''0'') =
     Inr \<lparr>pageInfo = \<lparr>hasNextPage = False, endCursor = JNull\<rparr>, results = []\<rparr>"
proof -
  note t = endCursor_last_raw_id [where c = "''0''" and M = testModel and D = testDateParse]
  from t [where s = "testFetcher (JArr [testMember 1, testMember 2]) 2",
      THEN conjunct1, rule_format, OF test_await test_members_page]
  have 1: "path (last [testMember 1, testMember 2]) [''user'', ''id''] = Inr (JNum 2)"
    by simp
  from t [where s = "testFetcher (JArr [testMessage 1, testMessage 2]) 2" and ch = "''123''",
      THEN conjunct2, THEN conjunct1, rule_format, OF test_await test_messages_page]
  have 2: "getProp (last [testMessage 1, testMessage 2]) ''id'' = Inr (JNum 2)"
    by simp
  from t [where s = "testFetcher (JArr [testReaction 1, testReaction 2]) 2" and ch = "''1''"
      and m = "''2''" and emoji = testEmoji,
      THEN conjunct2, THEN conjunct2, rule_format,
      OF testEmoji_ref test_await test_reactions_page]
  have 3: "getProp (last [testReaction 1, testReaction 2]) ''id'' = Inr (JNum 2)"
    by simp
  have e1: "fst (members (testFetcher (JArr []) 2) ''0'') =
     Inr \<lparr>pageInfo = \<lparr>hasNextPage = False, endCursor = JNull\<rparr>, results = []\<rparr>"
    using test_members [of "[]" "[]" 2 "''0''"] by simp
  have e2: "fst (messages testModel testDateParse (testFetcher (JArr []) 2) ''123'' ''0'') =
     Inr \<lparr>pageInfo = \<lparr>hasNextPage = False, endCursor = JNull\<rparr>, results = []\<rparr>"
    using test_messages [of testModel testDateParse "''123''" "[]" "[]" 2 "''0''"] by simp
  have e3: "fst (reactions testModel (testFetcher (JArr []) 2) ''1'' ''2'' testEmoji ''0'') =
     Inr \<lparr>pageInfo = \<lparr>hasNextPage = False, endCursor = JNull\<rparr>, results = []\<rparr>"
    using test_reactions [of "''1''" "''2''" "[]" "[]" 2 "''0''"] by simp
  from t [where s = "testFetcher (JArr []) 2" and raw = "[]",
      THEN conjunct1, rule_format, OF test_await e1]
    t [where s = "testFetcher (JArr []) 2" and raw = "[]" and ch = "''123''",
      THEN conjunct2, THEN conjunct1, rule_format, OF test_await e2]
    t [where s = "testFetcher (JArr []) 2" and raw = "[]" and ch = "''1''" and m = "''2''"
      and emoji = testEmoji, THEN conjunct2, THEN conjunct2, rule_format,
      OF testEmoji_ref test_await e3]
    1 2 3 e1 e2 e3 test_members_page test_messages_page test_reactions_page
  show ?thesis
    by simp
qed

text \<open>
  A page of one raw reaction whose \<^verbatim>\<open>id\<close> is \<^verbatim>\<open>null\<close>: the raw list is not empty and
  \<^verbatim>\<open>endCursor\<close> is \<^verbatim>\<open>null\<close>, so \<^verbatim>\<open>null\<close> does not tell an empty raw list.
\<close>

theorem endCursor_null_counterexample:
  "fst (reactions testModel
         (testFetcher (JArr [JObj [(''id'', JNull), (''emoji'', testEmoji)]]) 2)
         ''1'' ''2'' testEmoji ''0'') =
     Inr \<lparr>pageInfo = \<lparr>hasNextPage = False, endCursor = JNull\<rparr>,
          results = [\<lparr>reaction_emoji = testEmoji, reaction_channelId = ''1'',
                      reaction_messageId = ''2'', reaction_authorId = JNull\<rparr>]\<rparr> \<and>
   [JObj [(''id'', JNull), (''emoji'', testEmoji)]] \<noteq> []"
proof -
  have "mapE (reactions_item ''1'' ''2'') [JObj [(''id'', JNull), (''emoji'', testEmoji)]] =
      Inr [\<lparr>reaction_emoji = testEmoji, reaction_channelId = ''1'',
            reaction_messageId = ''2'', reaction_authorId = JNull\<rparr>]"
    by (simp add: reactions_item_def)
  from test_reactions [OF this, of 2 "''0''"] show ?thesis
    by simp
qed

text \<open>
  C10 (as amended). With a positive limit for the resource, an empty raw response
  always yields the page \<^verbatim>\<open>{hasNextPage: false, endCursor: null}\<close> with no results, and
  whenever a returned page has \<^verbatim>\<open>hasNextPage = true\<close> the raw list is not empty and
  \<^verbatim>\<open>endCursor\<close> is the identifying field of its last element. (The request of
  \<^verbatim>\<open>reactions\<close> carries the reference \<open>eref\<close> that the encoder returned.)
\<close>

theorem empty_page_and_next_page:
  fixes s :: "'w state"
  defines "opts \<equiv> options (this s)"
  shows
   "(0 < membersLimit opts \<longrightarrow>
     fst (await_fetch s (''/guilds/'' @ guildId opts @ ''/members?after='' @ c
            @ ''&limit='' @ Number_toString (membersLimit opts))) = Inr (JArr raw) \<longrightarrow>
       (raw = [] \<longrightarrow> fst (members s c) =
          Inr \<lparr>pageInfo = \<lparr>hasNextPage = False, endCursor = JNull\<rparr>, results = []\<rparr>) \<and>
       (fst (members s c) = Inr p1 \<longrightarrow> hasNextPage (pageInfo p1) \<longrightarrow>
          raw \<noteq> [] \<and> path (last raw) [''user'', ''id''] = Inr (endCursor (pageInfo p1)))) \<and>
    (0 < messagesLimit opts \<longrightarrow>
     fst (await_fetch s (''/channels/'' @ ch @ ''/messages?after='' @ c
            @ ''&limit='' @ Number_toString (messagesLimit opts))) = Inr (JArr raw) \<longrightarrow>
       (raw = [] \<longrightarrow> fst (messages M D s ch c) =
          Inr \<lparr>pageInfo = \<lparr>hasNextPage = False, endCursor = JNull\<rparr>, results = []\<rparr>) \<and>
       (fst (messages M D s ch c) = Inr p2 \<longrightarrow> hasNextPage (pageInfo p2) \<longrightarrow>
          raw \<noteq> [] \<and> getProp (last raw) ''id'' = Inr (endCursor (pageInfo p2)))) \<and>
    (0 < reactionsLimit opts \<longrightarrow>
     emojiToRef M emoji = Inr eref \<longrightarrow>
     fst (await_fetch s (''/channels/'' @ ch @ ''/messages/'' @ m @ ''/reactions/''
            @ eref @ ''?after='' @ c
            @ ''&limit='' @ Number_toString (reactionsLimit opts))) = Inr (JArr raw) \<longrightarrow>
       (raw = [] \<longrightarrow> fst (reactions M s ch m emoji c) =
          Inr \<lparr>pageInfo = \<lparr>hasNextPage = False, endCursor = JNull\<rparr>, results = []\<rparr>) \<and>
       (fst (reactions M s ch m emoji c) = Inr p3 \<longrightarrow> hasNextPage (pageInfo p3) \<longrightarrow>
          raw \<noteq> [] \<and> getProp (last raw) ''id'' = Inr (endCursor (pageInfo p3))))"
proof (intro conjI impI)
  assume lim: "0 < membersLimit opts"
    and r: "fst (await_fetch s (''/guilds/'' @ guildId opts @ ''/members?after='' @ c
            @ ''&limit='' @ Number_toString (membersLimit opts))) = Inr (JArr raw)"
  { assume "raw = []"
    with r lim members_ok [of s c "[]" "[]"]
    show "fst (members s c) =
        Inr \<lparr>pageInfo = \<lparr>hasNextPage = False, endCursor = JNull\<rparr>, results = []\<rparr>"
      by (simp add: await_fetch_fst opts_def) }
  assume ok: "fst (members s c) = Inr p1" and nx: "hasNextPage (pageInfo p1)"
  from ok obtain raw' where
    "fst (fetchEndpoint (this s)
       (''/guilds/'' @ guildId (options (this s)) @ ''/members?after='' @ c
        @ ''&limit='' @ Number_toString (membersLimit (options (this s)))) (world s))
     = Inr (JArr raw')"
    and mp: "mapE members_item raw' = Inr (results p1)"
    and h: "hasNextPage (pageInfo p1) = (int (length (results p1)) = membersLimit (options (this s)))"
    and "raw' = [] \<longrightarrow> endCursor (pageInfo p1) = JNull"
    and l: "raw' \<noteq> [] \<longrightarrow> path (last raw') [''user'', ''id''] = Inr (endCursor (pageInfo p1))"
    by (rule members_Inr)
  with r have eq: "raw' = raw" by (simp add: await_fetch_fst opts_def)
  from mp eq have "length (results p1) = length raw" by (simp add: mapE_length)
  with h nx lim show ne: "raw \<noteq> []" by (auto simp: opts_def)
  with l eq show "path (last raw) [''user'', ''id''] = Inr (endCursor (pageInfo p1))" by simp
next
  assume lim: "0 < messagesLimit opts"
    and r: "fst (await_fetch s (''/channels/'' @ ch @ ''/messages?after='' @ c
            @ ''&limit='' @ Number_toString (messagesLimit opts))) = Inr (JArr raw)"
  { assume "raw = []"
    with r lim messages_ok [of s ch c "[]" M D "[]"]
    show "fst (messages M D s ch c) =
        Inr \<lparr>pageInfo = \<lparr>hasNextPage = False, endCursor = JNull\<rparr>, results = []\<rparr>"
      by (simp add: await_fetch_fst opts_def) }
  assume ok: "fst (messages M D s ch c) = Inr p2" and nx: "hasNextPage (pageInfo p2)"
  from ok obtain raw' where
    "fst (fetchEndpoint (this s)
       (''/channels/'' @ ch @ ''/messages?after='' @ c
        @ ''&limit='' @ Number_toString (messagesLimit (options (this s)))) (world s))
     = Inr (JArr raw')"
    and mp: "mapE (messages_item M D ch) raw' = Inr (results p2)"
    and h: "hasNextPage (pageInfo p2) = (int (length (results p2)) = messagesLimit (options (this s)))"
    and "raw' = [] \<longrightarrow> endCursor (pageInfo p2) = JNull"
    and l: "raw' \<noteq> [] \<longrightarrow> getProp (last raw') ''id'' = Inr (endCursor (pageInfo p2))"
    by (rule messages_Inr)
  with r have eq: "raw' = raw" by (simp add: await_fetch_fst opts_def)
  from mp eq have "length (results p2) = length raw" by (simp add: mapE_length)
  with h nx lim show ne: "raw \<noteq> []" by (auto simp: opts_def)
  with l eq show "getProp (last raw) ''id'' = Inr (endCursor (pageInfo p2))" by simp
next
  assume lim: "0 < reactionsLimit opts"
    and er: "emojiToRef M emoji = Inr eref"
    and r: "fst (await_fetch s (''/channels/'' @ ch @ ''/messages/'' @ m @ ''/reactions/''
            @ eref @ ''?after='' @ c
            @ ''&limit='' @ Number_toString (reactionsLimit opts))) = Inr (JArr raw)"
  { assume "raw = []"
    with r lim reactions_ok [OF er, where s = s and channel = ch and message = m
        and after = c and raw = "[]" and rs = "[]"]
    show "fst (reactions M s ch m emoji c) =
        Inr \<lparr>pageInfo = \<lparr>hasNextPage = False, endCursor = JNull\<rparr>, results = []\<rparr>"
      by (simp add: await_fetch_fst opts_def) }
  assume ok: "fst (reactions M s ch m emoji c) = Inr p3" and nx: "hasNextPage (pageInfo p3)"
  from ok obtain raw' eref' where
    er': "emojiToRef M emoji = Inr eref'"
    and "fst (fetchEndpoint (this s)
       (''/channels/'' @ ch @ ''/messages/'' @ m @ ''/reactions/''
        @ eref' @ ''?after='' @ c
        @ ''&limit='' @ Number_toString (reactionsLimit (options (this s)))) (world s))
     = Inr (JArr raw')"
    and mp: "mapE (reactions_item ch m) raw' = Inr (results p3)"
    and h: "hasNextPage (pageInfo p3) = (int (length (results p3)) = reactionsLimit (options (this s)))"
    and "raw' = [] \<longrightarrow> endCursor (pageInfo p3) = JNull"
    and l: "raw' \<noteq> [] \<longrightarrow> getProp (last raw') ''id'' = Inr (endCursor (pageInfo p3))"
    by (rule reactions_Inr)
  with r er er' have eq: "raw' = raw" by (simp add: await_fetch_fst opts_def)
  from mp eq have "length (results p3) = length raw" by (simp add: mapE_length)
  with h nx lim show ne: "raw \<noteq> []" by (auto simp: opts_def)
  with l eq show "getProp (last raw) ''id'' = Inr (endCursor (pageInfo p3))" by simp
qed

text \<open>
  Limit 2: the empty response gives \<^verbatim>\<open>{hasNextPage: false, endCursor: null}\<close>, and a full
  page of two raw items gives \<^verbatim>\<open>hasNextPage = true\<close> with the cursor of the last one.
\<close>

theorem empty_page_and_next_page_witness:
  "fst (members (testFetcher (JArr []) 2) ''0'') =
     Inr \<lparr>pageInfo = \<lparr>hasNextPage = False, endCursor = JNull\<rparr>, results = []\<rparr> \<and>
   fst (messages testModel testDateParse (testFetcher (JArr []) 2) ''123'' ''0'') =
     Inr \<lparr>pageInfo = \<lparr>hasNextPage = False, endCursor = JNull\<rparr>, results = []\<rparr> \<and>
   fst (reactions testModel (testFetcher (JArr []) 2) ''1'' ''2'' testEmoji ''0'') =
     Inr \<lparr>pageInfo = \<lparr>hasNextPage = False, endCursor = JNull\<rparr>, results = []\<rparr> \<and>
   fst (members (testFetcher (JArr [testMember 1, testMember 2]) 2) ''0'') =
     Inr \<lparr>pageInfo = \<lparr>hasNextPage = True, endCursor = JNum 2\<rparr>,
          results = [testMemberObj 1, testMemberObj 2]\<rparr> \<and>
   [testMember 1, testMember 2] \<noteq> [] \<and>
   path (last [testMember 1, testMember 2]) [''user'', ''id''] = Inr (JNum 2) \<and>
   fst (messages testModel testDateParse (testFetcher (JArr [testMessage 1, testMessage 2]) 2)
         ''123'' ''0'') =
     Inr \<lparr>pageInfo = \<lparr>hasNextPage = True, endCursor = JNum 2\<rparr>,
          results = [testMessageObj 1 ''123'', testMessageObj 2 ''123'']\<rparr> \<and>
   getProp (last [testMessage 1, testMessage 2]) ''id'' = Inr (JNum 2) \<and>
   fst (reactions testModel (testFetcher (JArr [testReaction 1, testReaction 2]) 2)
         ''1'' ''2'' testEmoji ''0'') =
     Inr \<lparr>pageInfo = \<lparr>hasNextPage = True, endCursor = JNum 2\<rparr>,
          results = [testReactionObj 1 ''1'' ''2'', testReactionObj 2 ''1'' ''2'']\<rparr> \<and>
   getProp (last [testReaction 1, testReaction 2]) ''id'' = Inr (JNum 2)"
proof -
  note t = empty_page_and_next_page [where c = "''0''" and M = testModel and D = testDateParse]
  have lim: "0 < membersLimit (options (this (testFetcher r 2)))"
    "0 < messagesLimit (options (this (testFetcher r 2)))"
    "0 < reactionsLimit (options (this (testFetcher r 2)))" for r
    by (simp_all add: testFetcher_limits)
  from t [where s = "testFetcher (JArr []) 2" and raw = "[]",
      THEN conjunct1, rule_format, OF lim(1) test_await]
  have 1: "fst (members (testFetcher (JArr []) 2) ''0'') =
     Inr \<lparr>pageInfo = \<lparr>hasNextPage = False, endCursor = JNull\<rparr>, results = []\<rparr>"
    by simp
  from t [where s = "testFetcher (JArr []) 2" and raw = "[]" and ch = "''123''",
      THEN conjunct2, THEN conjunct1, rule_format, OF lim(2) test_await]
  have 2: "fst (messages testModel testDateParse (testFetcher (JArr []) 2) ''123'' ''0'') =
     Inr \<lparr>pageInfo = \<lparr>hasNextPage = False, endCursor = JNull\<rparr>, results = []\<rparr>"
    by simp
  from t [where s = "testFetcher (JArr []) 2" and raw = "[]" and ch = "''1''" and m = "''2''"
      and emoji = testEmoji, THEN conjunct2, THEN conjunct2, rule_format,
      OF lim(3) testEmoji_ref test_await]
  have 3: "fst (reactions testModel (testFetcher (JArr []) 2) ''1'' ''2'' testEmoji ''0'') =
     Inr \<lparr>pageInfo = \<lparr>hasNextPage = False, endCursor = JNull\<rparr>, results = []\<rparr>"
    by simp
  from t [where s = "testFetcher (JArr [testMember 1, testMember 2]) 2",
      THEN conjunct1, rule_format, OF lim(1) test_await, THEN conjunct2, rule_format,
      OF test_members_page]
  have 4: "[testMember 1, testMember 2] \<noteq> [] \<and>
      path (last [testMember 1, testMember 2]) [''user'', ''id''] = Inr (JNum 2)"
    by simp
  from t [where s = "testFetcher (JArr [testMessage 1, testMessage 2]) 2" and ch = "''123''",
      THEN conjunct2, THEN conjunct1, rule_format, OF lim(2) test_await, THEN conjunct2,
      rule_format, OF test_messages_page]
  have 5: "getProp (last [testMessage 1, testMessage 2]) ''id'' = Inr (JNum 2)"
    by simp
  from t [where s = "testFetcher (JArr [testReaction 1, testReaction 2]) 2" and ch = "''1''"
      and m = "''2''" and emoji = testEmoji,
      THEN conjunct2, THEN conjunct2, rule_format,
      OF lim(3) testEmoji_ref test_await, THEN conjunct2,
      rule_format, OF test_reactions_page]
  have 6: "getProp (last [testReaction 1, testReaction 2]) ''id'' = Inr (JNum 2)"
    by simp
  from 1 2 3 4 5 6 test_members_page test_messages_page test_reactions_page
  show ?thesis by simp
qed

text \<open>
  Limit 1 and one raw member whose \<^verbatim>\<open>user.id\<close> is \<^verbatim>\<open>null\<close>: \<^verbatim>\<open>hasNextPage\<close> is true and
  \<^verbatim>\<open>endCursor\<close> is \<^verbatim>\<open>null\<close>.
\<close>

theorem next_page_null_cursor_counterexample:
  "fst (members
         (testFetcher (JArr [JObj [(''user'', JObj [(''id'', JNull), (''username'', JStr ''u''),
              (''discriminator'', JStr ''0001'')]), (''roles'', JArr [])]]) 1) ''0'') =
     Inr \<lparr>pageInfo = \<lparr>hasNextPage = True, endCursor = JNull\<rparr>,
          results = [\<lparr>user = \<lparr>user_id = JNull, username = JStr ''u'',
                               discriminator = JStr ''0001'', bot = JBool False\<rparr>,
                      nick = JNull, roles = JArr []\<rparr>]\<rparr>"
proof -
  have "mapE members_item [JObj [(''user'', JObj [(''id'', JNull), (''username'', JStr ''u''),
              (''discriminator'', JStr ''0001'')]), (''roles'', JArr [])]] =
      Inr [\<lparr>user = \<lparr>user_id = JNull, username = JStr ''u'',
                               discriminator = JStr ''0001'', bot = JBool False\<rparr>,
                      nick = JNull, roles = JArr []\<rparr>]"
    by (simp add: members_item_def js_or_def)
  from test_members [OF this, of 1 "''0''"] show ?thesis
    by simp
qed

section \<open>Request paths\<close>

text \<open>
  C3. On a recording transport, each method requests exactly one path, the documented
  template filled in by string interpolation, \<open>eref\<close> being the emoji reference the
  encoder returned; the path of \<^verbatim>\<open>guild\<close> is the only one that does not start with a
  slash.
\<close>

theorem request_paths:
  fixes f :: "'w FetchEndpoint" and opts :: FetchOptions and w :: 'w
  defines "s \<equiv> \<lparr>this = Fetcher_new (jest_fn f) opts, world = (w, [])\<rparr>"
  shows
   "mock_calls (snd (guild s)) = [''guilds/'' @ guildId opts] \<and>
    mock_calls (snd (channels M s)) = [''/guilds/'' @ guildId opts @ ''/channels''] \<and>
    mock_calls (snd (members s c)) =
      [''/guilds/'' @ guildId opts @ ''/members?after='' @ c
       @ ''&limit='' @ Number_toString (membersLimit opts)] \<and>
    mock_calls (snd (messages M D s ch c)) =
      [''/channels/'' @ ch @ ''/messages?after='' @ c
       @ ''&limit='' @ Number_toString (messagesLimit opts)] \<and>
    (emojiToRef M emoji = Inr eref \<longrightarrow>
     mock_calls (snd (reactions M s ch m emoji c)) =
      [''/channels/'' @ ch @ ''/messages/'' @ m @ ''/reactions/'' @ eref
       @ ''?after='' @ c @ ''&limit='' @ Number_toString (reactionsLimit opts)]) \<and>
    hd (hd (mock_calls (snd (guild s)))) \<noteq> CHR ''/'' \<and>
    hd (hd (mock_calls (snd (channels M s)))) = CHR ''/'' \<and>
    hd (hd (mock_calls (snd (members s c)))) = CHR ''/'' \<and>
    hd (hd (mock_calls (snd (messages M D s ch c)))) = CHR ''/'' \<and>
    (emojiToRef M emoji = Inr eref \<longrightarrow>
     hd (hd (mock_calls (snd (reactions M s ch m emoji c)))) = CHR ''/'')"
proof -
  have o: "options (this s) = opts"
    by (simp add: s_def Fetcher_new_def)
  have a: "mock_calls (snd (await_fetch s e)) = [e]" for e
    using await_fetch_jest_fn [of f opts w "[]" e] by (simp add: s_def)
  show ?thesis
    by (simp add: guild_snd channels_snd members_snd messages_snd reactions_snd a o)
qed

text \<open>The paths the test suite expects.\<close>

theorem request_paths_witness:
  "mock_calls (snd (guild
     \<lparr>this = Fetcher_new (jest_fn (resolves (JArr []))) (testOptions 2), world = ((), [])\<rparr>))
   = [''guilds/1''] \<and>
   mock_calls (snd (channels testModel
     \<lparr>this = Fetcher_new (jest_fn (resolves (JArr []))) (testOptions 2), world = ((), [])\<rparr>))
   = [''/guilds/1/channels''] \<and>
   mock_calls (snd (members
     \<lparr>this = Fetcher_new (jest_fn (resolves (JArr []))) (testOptions 2), world = ((), [])\<rparr>
     ''0''))
   = [''/guilds/1/members?after=0&limit=2''] \<and>
   mock_calls (snd (messages testModel testDateParse
     \<lparr>this = Fetcher_new (jest_fn (resolves (JArr []))) (testOptions 2), world = ((), [])\<rparr>
     ''1'' ''0''))
   = [''/channels/1/messages?after=0&limit=2''] \<and>
   emojiToRef testModel testEmoji = Inr ''emojiname:1'' \<and>
   mock_calls (snd (reactions testModel
     \<lparr>this = Fetcher_new (jest_fn (resolves (JArr []))) (testOptions 2), world = ((), [])\<rparr>
     ''1'' ''2'' testEmoji ''0''))
   = [''/channels/1/messages/2/reactions/emojiname:1?after=0&limit=2'']"
proof -
  note t = request_paths [where f = "resolves (JArr [])" and opts = "testOptions 2"
      and w = "()" and M = testModel and D = testDateParse and c = "''0''" and ch = "''1''"
      and m = "''2''" and emoji = testEmoji and eref = "''emojiname:1''"]
  from t testEmoji_ref show ?thesis
    by (simp add: testOptions_def Number_toString_def digits.simps digit_def)
qed

section \<open>Normalization\<close>

text \<open>
  C4. Whenever \<^verbatim>\<open>channels\<close>, \<^verbatim>\<open>members\<close>, \<^verbatim>\<open>messages\<close> or \<^verbatim>\<open>reactions\<close> returns for the
  raw response list \<open>raw\<close>, the normalized list is as long as \<open>raw\<close> and its \<open>i\<close>-th
  element is the normalization of the \<open>i\<close>-th element of \<open>raw\<close>. (The request of
  \<^verbatim>\<open>reactions\<close> carries the reference \<open>eref\<close> that the encoder returned.)
\<close>

theorem normalization_elementwise:
  fixes s :: "'w state"
  defines "opts \<equiv> options (this s)"
  shows
   "(fst (await_fetch s (''/guilds/'' @ guildId opts @ ''/channels'')) = Inr (JArr raw) \<longrightarrow>
     fst (channels M s) = Inr cs \<longrightarrow>
       length cs = length raw \<and>
       (\<forall>i<length raw. channels_item M (raw ! i) = Inr (cs ! i))) \<and>
    (fst (await_fetch s (''/guilds/'' @ guildId opts @ ''/members?after='' @ c
            @ ''&limit='' @ Number_toString (membersLimit opts))) = Inr (JArr raw) \<longrightarrow>
     fst (members s c) = Inr p1 \<longrightarrow>
       length (results p1) = length raw \<and>
       (\<forall>i<length raw. members_item (raw ! i) = Inr (results p1 ! i))) \<and>
    (fst (await_fetch s (''/channels/'' @ ch @ ''/messages?after='' @ c
            @ ''&limit='' @ Number_toString (messagesLimit opts))) = Inr (JArr raw) \<longrightarrow>
     fst (messages M D s ch c) = Inr p2 \<longrightarrow>
       length (results p2) = length raw \<and>
       (\<forall>i<length raw. messages_item M D ch (raw ! i) = Inr (results p2 ! i))) \<and>
    (emojiToRef M emoji = Inr eref \<longrightarrow>
     fst (await_fetch s (''/channels/'' @ ch @ ''/messages/'' @ m @ ''/reactions/''
            @ eref @ ''?after='' @ c
            @ ''&limit='' @ Number_toString (reactionsLimit opts))) = Inr (JArr raw) \<longrightarrow>
     fst (reactions M s ch m emoji c) = Inr p3 \<longrightarrow>
       length (results p3) = length raw \<and>
       (\<forall>i<length raw. reactions_item ch m (raw ! i) = Inr (results p3 ! i)))"
proof (intro conjI impI)
  assume r: "fst (await_fetch s (''/guilds/'' @ guildId opts @ ''/channels'')) = Inr (JArr raw)"
    and ok: "fst (channels M s) = Inr cs"
  from ok obtain raw' where
    "fst (fetchEndpoint (this s) (''/guilds/'' @ guildId (options (this s)) @ ''/channels'')
       (world s)) = Inr (JArr raw')"
    and m: "mapE (channels_item M) raw' = Inr cs"
    by (rule channels_Inr)
  with r have "raw' = raw" by (simp add: await_fetch_fst opts_def)
  with m have m': "mapE (channels_item M) raw = Inr cs" by simp
  from m' show "length cs = length raw" by (rule mapE_length)
  from m' show "\<forall>i<length raw. channels_item M (raw ! i) = Inr (cs ! i)"
    by (simp add: mapE_nth)
next
  assume r: "fst (await_fetch s (''/guilds/'' @ guildId opts @ ''/members?after='' @ c
            @ ''&limit='' @ Number_toString (membersLimit opts))) = Inr (JArr raw)"
    and ok: "fst (members s c) = Inr p1"
  from ok obtain raw' where
    "fst (fetchEndpoint (this s)
       (''/guilds/'' @ guildId (options (this s)) @ ''/members?after='' @ c
        @ ''&limit='' @ Number_toString (membersLimit (options (this s)))) (world s))
     = Inr (JArr raw')"
    and m: "mapE members_item raw' = Inr (results p1)"
    by (rule members_Inr)
  with r have "raw' = raw" by (simp add: await_fetch_fst opts_def)
  with m have m': "mapE members_item raw = Inr (results p1)" by simp
  from m' show "length (results p1) = length raw" by (rule mapE_length)
  from m' show "\<forall>i<length raw. members_item (raw ! i) = Inr (results p1 ! i)"
    by (simp add: mapE_nth)
next
  assume r: "fst (await_fetch s (''/channels/'' @ ch @ ''/messages?after='' @ c
            @ ''&limit='' @ Number_toString (messagesLimit opts))) = Inr (JArr raw)"
    and ok: "fst (messages M D s ch c) = Inr p2"
  from ok obtain raw' where
    "fst (fetchEndpoint (this s)
       (''/channels/'' @ ch @ ''/messages?after='' @ c
        @ ''&limit='' @ Number_toString (messagesLimit (options (this s)))) (world s))
     = Inr (JArr raw')"
    and m: "mapE (messages_item M D ch) raw' = Inr (results p2)"
    by (rule messages_Inr)
  with r have "raw' = raw" by (simp add: await_fetch_fst opts_def)
  with m have m': "mapE (messages_item M D ch) raw = Inr (results p2)" by simp
  from m' show "length (results p2) = length raw" by (rule mapE_length)
  from m' show "\<forall>i<length raw. messages_item M D ch (raw ! i) = Inr (results p2 ! i)"
    by (simp add: mapE_nth)
next
  assume er: "emojiToRef M emoji = Inr eref"
    and r: "fst (await_fetch s (''/channels/'' @ ch @ ''/messages/'' @ m @ ''/reactions/''
            @ eref @ ''?after='' @ c
            @ ''&limit='' @ Number_toString (reactionsLimit opts))) = Inr (JArr raw)"
    and ok: "fst (reactions M s ch m emoji c) = Inr p3"
  from ok obtain raw' eref' where
    er': "emojiToRef M emoji = Inr eref'"
    and "fst (fetchEndpoint (this s)
       (''/channels/'' @ ch @ ''/messages/'' @ m @ ''/reactions/''
        @ eref' @ ''?after='' @ c
        @ ''&limit='' @ Number_toString (reactionsLimit (options (this s)))) (world s))
     = Inr (JArr raw')"
    and m: "mapE (reactions_item ch m) raw' = Inr (results p3)"
    by (rule reactions_Inr)
  with r er er' have "raw' = raw" by (simp add: await_fetch_fst opts_def)
  with m have m': "mapE (reactions_item ch m) raw = Inr (results p3)" by simp
  from m' show "length (results p3) = length raw" by (rule mapE_length)
  from m' show "\<forall>i<length raw. reactions_item ch m (raw ! i) = Inr (results p3 ! i)"
    by (simp add: mapE_nth)
qed

text \<open>The lists of the test suite, normalized element by element.\<close>

theorem normalization_elementwise_witness:
  "fst (channels testModel (testFetcher (JArr [testChannel 1, testChannel 2]) 2)) =
     Inr [testChannelObj 1, testChannelObj 2] \<and>
   length [testChannelObj 1, testChannelObj 2] = length [testChannel 1, testChannel 2] \<and>
   channels_item testModel (testChannel 2) = Inr (testChannelObj 2) \<and>
   fst (members (testFetcher (JArr [testMember 1, testMember 2]) 2) ''0'') =
     Inr \<lparr>pageInfo = \<lparr>hasNextPage = True, endCursor = JNum 2\<rparr>,
          results = [testMemberObj 1, testMemberObj 2]\<rparr> \<and>
   members_item (testMember 2) = Inr (testMemberObj 2) \<and>
   fst (messages testModel testDateParse (testFetcher (JArr [testMessage 1, testMessage 2]) 2)
         ''123'' ''0'') =
     Inr \<lparr>pageInfo = \<lparr>hasNextPage = True, endCursor = JNum 2\<rparr>,
          results = [testMessageObj 1 ''123'', testMessageObj 2 ''123'']\<rparr> \<and>
   messages_item testModel testDateParse ''123'' (testMessage 2) = Inr (testMessageObj 2 ''123'') \<and>
   fst (reactions testModel (testFetcher (JArr [testReaction 1, testReaction 2]) 2)
         ''1'' ''2'' testEmoji ''0'') =
     Inr \<lparr>pageInfo = \<lparr>hasNextPage = True, endCursor = JNum 2\<rparr>,
          results = [testReactionObj 1 ''1'' ''2'', testReactionObj 2 ''1'' ''2'']\<rparr> \<and>
   reactions_item ''1'' ''2'' (testReaction 2) = Inr (testReactionObj 2 ''1'' ''2'')"
proof -
  note t = normalization_elementwise [where c = "''0''" and M = testModel and D = testDateParse]
  from t [where s = "testFetcher (JArr [testChannel 1, testChannel 2]) 2",
      THEN conjunct1, rule_format, OF test_await test_channels_list]
  have 1: "length [testChannelObj 1, testChannelObj 2] = length [testChannel 1, testChannel 2]"
    and "\<forall>i<length [testChannel 1, testChannel 2].
      channels_item testModel ([testChannel 1, testChannel 2] ! i) =
      Inr ([testChannelObj 1, testChannelObj 2] ! i)"
    by blast+
  from this(2) [rule_format, of 1]
  have 2: "channels_item testModel (testChannel 2) = Inr (testChannelObj 2)" by simp
  from t [where s = "testFetcher (JArr [testMember 1, testMember 2]) 2",
      THEN conjunct2, THEN conjunct1, rule_format, OF test_await test_members_page]
  have "\<forall>i<length [testMember 1, testMember 2].
      members_item ([testMember 1, testMember 2] ! i) =
      Inr ([testMemberObj 1, testMemberObj 2] ! i)"
    by simp
  from this [rule_format, of 1]
  have 3: "members_item (testMember 2) = Inr (testMemberObj 2)" by simp
  from t [where s = "testFetcher (JArr [testMessage 1, testMessage 2]) 2" and ch = "''123''",
      THEN conjunct2, THEN conjunct2, THEN conjunct1, rule_format,
      OF test_await test_messages_page]
  have "\<forall>i<length [testMessage 1, testMessage 2].
      messages_item testModel testDateParse ''123'' ([testMessage 1, testMessage 2] ! i) =
      Inr ([testMessageObj 1 ''123'', testMessageObj 2 ''123''] ! i)"
    by simp
  from this [rule_format, of 1]
  have 4: "messages_item testModel testDateParse ''123'' (testMessage 2) =
      Inr (testMessageObj 2 ''123'')" by simp
  from t [where s = "testFetcher (JArr [testReaction 1, testReaction 2]) 2" and ch = "''1''"
      and m = "''2''" and emoji = testEmoji,
      THEN conjunct2, THEN conjunct2, THEN conjunct2, rule_format,
      OF testEmoji_ref test_await test_reactions_page]
  have "\<forall>i<length [testReaction 1, testReaction 2].
      reactions_item ''1'' ''2'' ([testReaction 1, testReaction 2] ! i) =
      Inr ([testReactionObj 1 ''1'' ''2'', testReactionObj 2 ''1'' ''2''] ! i)"
    by simp
  from this [rule_format, of 1]
  have 5: "reactions_item ''1'' ''2'' (testReaction 2) = Inr (testReactionObj 2 ''1'' ''2'')"
    by simp
  from 1 2 3 4 5 test_channels_list test_members_page test_messages_page test_reactions_page
  show ?thesis by simp
qed

text \<open>
  C5 (as amended). For every raw member item that normalizes: \<^verbatim>\<open>bot\<close> is the raw
  \<^verbatim>\<open>user.bot\<close> when that is truthy, otherwise the raw \<^verbatim>\<open>user.system\<close> when that is
  truthy, otherwise \<^verbatim>\<open>false\<close>; so when the two raw fields are each a boolean or absent,
  \<^verbatim>\<open>bot\<close> is \<^verbatim>\<open>true\<close> if either is \<^verbatim>\<open>true\<close> and \<^verbatim>\<open>false\<close> otherwise. \<^verbatim>\<open>nick\<close> is \<^verbatim>\<open>null\<close>
  whenever the raw \<^verbatim>\<open>nick\<close> is falsy (a missing field reads as \<^verbatim>\<open>undefined\<close>), and
  \<^verbatim>\<open>roles\<close> is the raw \<^verbatim>\<open>roles\<close>.
\<close>

theorem member_normalized:
  "members_item x = Inr m \<longrightarrow>
     (\<exists>u b sy n.
        getProp x ''user'' = Inr u \<and> getProp u ''bot'' = Inr b \<and>
        getProp u ''system'' = Inr sy \<and> getProp x ''nick'' = Inr n \<and>
        bot (user m) = (if truthy b then b else if truthy sy then sy else JBool False) \<and>
        (optional_boolean b \<and> optional_boolean sy \<longrightarrow>
           bot (user m) = JBool (b = JBool True \<or> sy = JBool True)) \<and>
        (\<not> truthy n \<longrightarrow> nick m = JNull) \<and>
        getProp x ''roles'' = Inr (roles m))"
proof
  assume "members_item x = Inr m"
  then obtain u i un d b sy n r where u: "getProp x ''user'' = Inr u"
    and b: "getProp u ''bot'' = Inr b"
    and sy: "getProp u ''system'' = Inr sy"
    and n: "getProp x ''nick'' = Inr n"
    and r: "getProp x ''roles'' = Inr r"
    and m: "m = \<lparr>user = \<lparr>user_id = i, username = un, discriminator = d,
                      bot = js_or (js_or b sy) (JBool False)\<rparr>,
              nick = js_or n JNull, roles = r\<rparr>"
    by (rule members_item_Inr)
  from m have bot: "bot (user m) = js_or (js_or b sy) (JBool False)"
    and nick: "nick m = js_or n JNull" and roles: "roles m = r"
    by simp_all
  from bot have 1: "bot (user m) = (if truthy b then b else if truthy sy then sy else JBool False)"
    by (simp add: js_or_def)
  from bot have 2: "optional_boolean b \<and> optional_boolean sy \<longrightarrow>
      bot (user m) = JBool (b = JBool True \<or> sy = JBool True)"
    by (simp add: js_or_flags)
  from nick have 3: "\<not> truthy n \<longrightarrow> nick m = JNull"
    by (simp add: js_or_def)
  from u b sy n r roles 1 2 3 show "\<exists>u b sy n.
        getProp x ''user'' = Inr u \<and> getProp u ''bot'' = Inr b \<and>
        getProp u ''system'' = Inr sy \<and> getProp x ''nick'' = Inr n \<and>
        bot (user m) = (if truthy b then b else if truthy sy then sy else JBool False) \<and>
        (optional_boolean b \<and> optional_boolean sy \<longrightarrow>
           bot (user m) = JBool (b = JBool True \<or> sy = JBool True)) \<and>
        (\<not> truthy n \<longrightarrow> nick m = JNull) \<and>
        getProp x ''roles'' = Inr (roles m)"
    by blast
qed

text \<open>
  A raw member with \<^verbatim>\<open>bot: false\<close>, \<^verbatim>\<open>system: true\<close> and no \<^verbatim>\<open>nick\<close> field normalizes to
  \<^verbatim>\<open>bot = true\<close> and \<^verbatim>\<open>nick = null\<close>.
\<close>

theorem member_normalized_witness:
  "members_item (JObj [(''user'', JObj [(''id'', JStr ''1''), (''username'', JStr ''u''),
        (''discriminator'', JStr ''0001''), (''bot'', JBool False), (''system'', JBool True)]),
      (''roles'', JArr [JStr ''role'']) ]) =
     Inr \<lparr>user = \<lparr>user_id = JStr ''1'', username = JStr ''u'', discriminator = JStr ''0001'',
                  bot = JBool True\<rparr>,
          nick = JNull, roles = JArr [JStr ''role'']\<rparr> \<and>
   optional_boolean (JBool False) \<and> optional_boolean (JBool True) \<and> \<not> truthy JUndefined"
proof -
  let ?x = "JObj [(''user'', JObj [(''id'', JStr ''1''), (''username'', JStr ''u''),
        (''discriminator'', JStr ''0001''), (''bot'', JBool False), (''system'', JBool True)]),
      (''roles'', JArr [JStr ''role'']) ]"
  have "\<exists>m. members_item ?x = Inr m \<and> user_id (user m) = JStr ''1'' \<and>
      username (user m) = JStr ''u'' \<and> discriminator (user m) = JStr ''0001''"
    by (simp add: members_item_def)
  then obtain m where ev: "members_item ?x = Inr m" and 1: "user_id (user m) = JStr ''1''"
    and 2: "username (user m) = JStr ''u''" and 3: "discriminator (user m) = JStr ''0001''"
    by blast
  from member_normalized [THEN mp, OF ev]
  have "bot (user m) = JBool True" and "nick m = JNull" and "roles m = JArr [JStr ''role'']"
    by auto
  with 1 2 3 have "m = \<lparr>user = \<lparr>user_id = JStr ''1'', username = JStr ''u'',
      discriminator = JStr ''0001'', bot = JBool True\<rparr>,
      nick = JNull, roles = JArr [JStr ''role'']\<rparr>"
    by (cases m, cases "user m") simp
  with ev show ?thesis by simp
qed

text \<open>
  A raw member with \<^verbatim>\<open>bot: 1\<close> and \<^verbatim>\<open>system: true\<close>: the normalized \<^verbatim>\<open>bot\<close> is the
  number 1, not \<^verbatim>\<open>true\<close>.
\<close>

theorem member_bot_counterexample:
  "members_item (JObj [(''user'', JObj [(''id'', JStr ''1''), (''username'', JStr ''u''),
        (''discriminator'', JStr ''0001''), (''bot'', JNum 1), (''system'', JBool True)]),
      (''roles'', JArr [])]) =
     Inr \<lparr>user = \<lparr>user_id = JStr ''1'', username = JStr ''u'', discriminator = JStr ''0001'',
                  bot = JNum 1\<rparr>,
          nick = JNull, roles = JArr []\<rparr> \<and>
   JNum 1 \<noteq> JBool True"
  by (simp add: members_item_def js_or_def)

text \<open>
  C6. For every raw message item that normalizes: \<^verbatim>\<open>timestampMs\<close> is \<^verbatim>\<open>Date.parse\<close> of the
  raw \<^verbatim>\<open>timestamp\<close>; \<^verbatim>\<open>reactionEmoji\<close> is the \<^verbatim>\<open>emoji\<close> fields of the raw \<^verbatim>\<open>reactions\<close>,
  in order, and empty when \<^verbatim>\<open>reactions\<close> is absent (or otherwise falsy); \<^verbatim>\<open>mentions\<close> is
  the \<^verbatim>\<open>id\<close> fields of the raw \<^verbatim>\<open>mentions\<close>, in order, and empty when \<^verbatim>\<open>mentions\<close> is
  absent (or otherwise falsy).
\<close>

theorem message_normalized:
  "messages_item M Date_parse channel x = Inr msg \<longrightarrow>
     (\<exists>ts rs ms.
        getProp x ''timestamp'' = Inr ts \<and> timestampMs msg = Date_parse ts \<and>
        getProp x ''reactions'' = Inr rs \<and>
        (\<not> truthy rs \<longrightarrow> reactionEmoji msg = []) \<and>
        (\<forall>es. rs = JArr es \<longrightarrow>
           length (reactionEmoji msg) = length es \<and>
           (\<forall>i<length es. getProp (es ! i) ''emoji'' = Inr (reactionEmoji msg ! i))) \<and>
        getProp x ''mentions'' = Inr ms \<and>
        (\<not> truthy ms \<longrightarrow> mentions msg = []) \<and>
        (\<forall>us. ms = JArr us \<longrightarrow>
           length (mentions msg) = length us \<and>
           (\<forall>i<length us. getProp (us ! i) ''id'' = Inr (mentions msg ! i))))"
proof
  assume "messages_item M Date_parse channel x = Inr msg"
  then obtain i a ts c rs ms where ts: "getProp x ''timestamp'' = Inr ts"
    and rs: "getProp x ''reactions'' = Inr rs"
    and re: "array_map (js_or rs (JArr [])) (\<lambda>r. getProp r ''emoji'') = Inr (reactionEmoji msg)"
    and ms: "getProp x ''mentions'' = Inr ms"
    and me: "array_map (js_or ms (JArr [])) (\<lambda>user. getProp user ''id'') = Inr (mentions msg)"
    and msg: "msg = \<lparr>message_id = i, message_channelId = channel, message_authorId = a,
               timestampMs = Date_parse ts, content = c, reactionEmoji = reactionEmoji msg,
               nonUserAuthor = nonUserAuthor msg, mentions = mentions msg\<rparr>"
    by (rule messages_item_Inr)
  from msg have t: "timestampMs msg = Date_parse ts"
    by (cases msg) simp
  from ts t rs ms array_map_or_empty [OF re] array_map_or_empty [OF me]
  show "\<exists>ts rs ms.
        getProp x ''timestamp'' = Inr ts \<and> timestampMs msg = Date_parse ts \<and>
        getProp x ''reactions'' = Inr rs \<and>
        (\<not> truthy rs \<longrightarrow> reactionEmoji msg = []) \<and>
        (\<forall>es. rs = JArr es \<longrightarrow>
           length (reactionEmoji msg) = length es \<and>
           (\<forall>i<length es. getProp (es ! i) ''emoji'' = Inr (reactionEmoji msg ! i))) \<and>
        getProp x ''mentions'' = Inr ms \<and>
        (\<not> truthy ms \<longrightarrow> mentions msg = []) \<and>
        (\<forall>us. ms = JArr us \<longrightarrow>
           length (mentions msg) = length us \<and>
           (\<forall>i<length us. getProp (us ! i) ''id'' = Inr (mentions msg ! i)))"
    by blast
qed

text \<open>
  \<^verbatim>\<open>testMessage\<close> normalizes to the record the test suite expects, and a raw message
  with neither \<^verbatim>\<open>reactions\<close> nor \<^verbatim>\<open>mentions\<close> gets two empty sequences.
\<close>

theorem message_normalized_witness:
  "messages_item testModel testDateParse ''123'' (testMessage 1) = Inr (testMessageObj 1 ''123'') \<and>
   timestampMs (testMessageObj 1 ''123'') =
     testDateParse (JStr ''2020-03-03T23:35:10.615000+00:00'') \<and>
   messages_item testModel testDateParse ''123''
     (JObj [(''id'', JNum 7), (''author'', JObj [(''id'', JNum 2)]),
            (''timestamp'', JStr ''2020-03-03T23:35:10.615000+00:00''),
            (''content'', JStr ''x'')]) =
     Inr \<lparr>message_id = JNum 7, message_channelId = ''123'', message_authorId = JNum 2,
          timestampMs = Some 1583278510615, content = JStr ''x'', reactionEmoji = [],
          nonUserAuthor = False, mentions = []\<rparr>"
proof -
  let ?y = "JObj [(''id'', JNum 7), (''author'', JObj [(''id'', JNum 2)]),
            (''timestamp'', JStr ''2020-03-03T23:35:10.615000+00:00''),
            (''content'', JStr ''x'')]"
  from message_normalized [THEN mp, OF testMessage_item [of "''123''" 1]]
  have 1: "timestampMs (testMessageObj 1 ''123'') =
      testDateParse (JStr ''2020-03-03T23:35:10.615000+00:00'')"
    by (auto simp: testMessage_def)
  have "\<exists>msg. messages_item testModel testDateParse ''123'' ?y = Inr msg \<and>
      message_id msg = JNum 7 \<and> message_channelId msg = ''123'' \<and>
      message_authorId msg = JNum 2 \<and> content msg = JStr ''x'' \<and> \<not> nonUserAuthor msg"
    by (simp add: messages_item_def js_or_def array_map_def testModel_def)
  then obtain msg where ev: "messages_item testModel testDateParse ''123'' ?y = Inr msg"
    and f: "message_id msg = JNum 7" "message_channelId msg = ''123''"
      "message_authorId msg = JNum 2" "content msg = JStr ''x''" "\<not> nonUserAuthor msg"
    by blast
  from message_normalized [THEN mp, OF ev]
  have "timestampMs msg = Some 1583278510615" and "reactionEmoji msg = []" and "mentions msg = []"
    by (auto simp: testDateParse_def)
  with f have "msg = \<lparr>message_id = JNum 7, message_channelId = ''123'',
      message_authorId = JNum 2, timestampMs = Some 1583278510615, content = JStr ''x'',
      reactionEmoji = [], nonUserAuthor = False, mentions = []\<rparr>"
    by (cases msg) simp
  with ev 1 testMessage_item [of "''123''" 1] show ?thesis by simp
qed

text \<open>
  C7. For every raw reaction item that normalizes, with the arguments \<open>channel\<close> and
  \<open>message\<close>: the record is the raw \<^verbatim>\<open>emoji\<close>, the two arguments passed through, and
  the raw item's own \<^verbatim>\<open>id\<close> as \<^verbatim>\<open>authorId\<close>. Every raw item other than \<^verbatim>\<open>undefined\<close>
  and \<^verbatim>\<open>null\<close> normalizes.
\<close>

theorem reaction_normalized:
  "(reactions_item channel message x = Inr r \<longrightarrow>
     (\<exists>e i. getProp x ''emoji'' = Inr e \<and> getProp x ''id'' = Inr i \<and>
            r = \<lparr>reaction_emoji = e, reaction_channelId = channel,
                 reaction_messageId = message, reaction_authorId = i\<rparr>)) \<and>
   (x \<noteq> JUndefined \<and> x \<noteq> JNull \<longrightarrow>
     (\<exists>r. reactions_item channel message x = Inr r))"
proof (intro conjI impI)
  assume "reactions_item channel message x = Inr r"
  then show "\<exists>e i. getProp x ''emoji'' = Inr e \<and> getProp x ''id'' = Inr i \<and>
            r = \<lparr>reaction_emoji = e, reaction_channelId = channel,
                 reaction_messageId = message, reaction_authorId = i\<rparr>"
    by (auto simp: reactions_item_def bindE_eq_Inr)
next
  assume "x \<noteq> JUndefined \<and> x \<noteq> JNull"
  then show "\<exists>r. reactions_item channel message x = Inr r"
    by (cases x) (simp_all add: reactions_item_def)
qed

text \<open>
  The raw reaction \<^verbatim>\<open>{id: 123, emoji}\<close> of the test suite; a raw item that is an array
  normalizes as well, both its fields being \<^verbatim>\<open>undefined\<close>.
\<close>

theorem reaction_normalized_witness:
  "reactions_item ''3'' ''2'' (JObj [(''id'', JNum 123), (''emoji'', testEmoji)]) =
     Inr \<lparr>reaction_emoji = testEmoji, reaction_channelId = ''3'',
          reaction_messageId = ''2'', reaction_authorId = JNum 123\<rparr> \<and>
   JObj [(''id'', JNum 123), (''emoji'', testEmoji)] \<noteq> JUndefined \<and>
   JObj [(''id'', JNum 123), (''emoji'', testEmoji)] \<noteq> JNull \<and>
   (\<exists>r. reactions_item ''3'' ''2'' (JArr []) = Inr r)"
proof -
  have ne: "JArr [] \<noteq> JUndefined \<and> JArr [] \<noteq> JNull" by simp
  note tot = reaction_normalized [THEN conjunct2, THEN mp, OF ne, of "''3''" "''2''"]
  have ev: "reactions_item ''3'' ''2'' (JObj [(''id'', JNum 123), (''emoji'', testEmoji)]) =
     Inr \<lparr>reaction_emoji = testEmoji, reaction_channelId = ''3'',
          reaction_messageId = ''2'', reaction_authorId = JNum 123\<rparr>"
    by (simp add: reactions_item_def)
  from reaction_normalized [THEN conjunct1, THEN mp, OF ev] tot show ?thesis using ev by simp
qed

section \<open>Transport invocation and the fetcher's state\<close>

text \<open>
  C8 (as amended). \<^verbatim>\<open>guild\<close>, \<^verbatim>\<open>channels\<close>, \<^verbatim>\<open>members\<close> and \<^verbatim>\<open>messages\<close> invoke the
  transport exactly once, whatever it answers, and so does \<^verbatim>\<open>reactions\<close> when the
  emoji-reference encoder returns: a recording transport has one call after the
  method, and the world after the method is the world after that one invocation. When
  the encoder throws, \<^verbatim>\<open>reactions\<close> rejects with what the encoder threw and does not
  invoke the transport; it never invokes it more than once. An error the transport
  raises is the error of the method, unchanged.
\<close>

theorem one_request_unless_encoder_throws:
  fixes f :: "'w FetchEndpoint" and opts :: FetchOptions and w :: 'w
  defines "s \<equiv> \<lparr>this = Fetcher_new f opts, world = w\<rparr>"
    and "sj \<equiv> \<lparr>this = Fetcher_new (jest_fn f) opts, world = (w, [])\<rparr>"
  shows
   "length (mock_calls (snd (guild sj))) = 1 \<and>
    length (mock_calls (snd (channels M sj))) = 1 \<and>
    length (mock_calls (snd (members sj c))) = 1 \<and>
    length (mock_calls (snd (messages M D sj ch c))) = 1 \<and>
    (emojiToRef M emoji = Inr eref \<longrightarrow>
       length (mock_calls (snd (reactions M sj ch m emoji c))) = 1) \<and>
    (emojiToRef M emoji = Inl x \<longrightarrow>
       mock_calls (snd (reactions M sj ch m emoji c)) = [] \<and>
       reactions M s ch m emoji c = (Inl x, s)) \<and>
    length (mock_calls (snd (reactions M sj ch m emoji c))) \<le> 1 \<and>
    (fst (f (''guilds/'' @ guildId opts) w) = Inl e \<longrightarrow> fst (guild s) = Inl e) \<and>
    (fst (f (''/guilds/'' @ guildId opts @ ''/channels'') w) = Inl e \<longrightarrow>
       fst (channels M s) = Inl e) \<and>
    (fst (f (''/guilds/'' @ guildId opts @ ''/members?after='' @ c
             @ ''&limit='' @ Number_toString (membersLimit opts)) w) = Inl e \<longrightarrow>
       fst (members s c) = Inl e) \<and>
    (fst (f (''/channels/'' @ ch @ ''/messages?after='' @ c
             @ ''&limit='' @ Number_toString (messagesLimit opts)) w) = Inl e \<longrightarrow>
       fst (messages M D s ch c) = Inl e) \<and>
    (emojiToRef M emoji = Inr eref \<longrightarrow>
     fst (f (''/channels/'' @ ch @ ''/messages/'' @ m @ ''/reactions/'' @ eref
             @ ''?after='' @ c @ ''&limit='' @ Number_toString (reactionsLimit opts)) w) = Inl e
       \<longrightarrow> fst (reactions M s ch m emoji c) = Inl e) \<and>
    world (snd (guild s)) = snd (f (''guilds/'' @ guildId opts) w) \<and>
    world (snd (channels M s)) = snd (f (''/guilds/'' @ guildId opts @ ''/channels'') w) \<and>
    world (snd (members s c)) =
      snd (f (''/guilds/'' @ guildId opts @ ''/members?after='' @ c
              @ ''&limit='' @ Number_toString (membersLimit opts)) w) \<and>
    world (snd (messages M D s ch c)) =
      snd (f (''/channels/'' @ ch @ ''/messages?after='' @ c
              @ ''&limit='' @ Number_toString (messagesLimit opts)) w) \<and>
    (emojiToRef M emoji = Inr eref \<longrightarrow>
     world (snd (reactions M s ch m emoji c)) =
      snd (f (''/channels/'' @ ch @ ''/messages/'' @ m @ ''/reactions/'' @ eref
              @ ''?after='' @ c @ ''&limit='' @ Number_toString (reactionsLimit opts)) w))"
proof -
  have a: "mock_calls (snd (await_fetch sj y)) = [y]" for y
    using await_fetch_jest_fn [of f opts w "[]" y] by (simp add: sj_def)
  have calls:
    "length (mock_calls (snd (guild sj))) = 1"
    "length (mock_calls (snd (channels M sj))) = 1"
    "length (mock_calls (snd (members sj c))) = 1"
    "length (mock_calls (snd (messages M D sj ch c))) = 1"
    by (simp_all add: guild_snd channels_snd members_snd messages_snd a)
  have once: "emojiToRef M emoji = Inr eref \<longrightarrow>
       length (mock_calls (snd (reactions M sj ch m emoji c))) = 1"
    by (simp add: reactions_snd a)
  have none: "emojiToRef M emoji = Inl x \<longrightarrow>
       mock_calls (snd (reactions M sj ch m emoji c)) = [] \<and>
       reactions M s ch m emoji c = (Inl x, s)"
    by (simp add: reactions_throws mock_calls_def sj_def)
  have most: "length (mock_calls (snd (reactions M sj ch m emoji c))) \<le> 1"
  proof (cases "emojiToRef M emoji")
    case (Inl y)
    then show ?thesis by (simp add: reactions_throws mock_calls_def sj_def)
  next
    case (Inr y)
    then show ?thesis by (simp add: reactions_snd a)
  qed
  have o: "options (this s) = opts" and t: "fetchEndpoint (this s) = f" and w: "world s = w"
    by (simp_all add: s_def Fetcher_new_def)
  have errs:
    "fst (f (''guilds/'' @ guildId opts) w) = Inl e \<longrightarrow> fst (guild s) = Inl e"
    "fst (f (''/guilds/'' @ guildId opts @ ''/channels'') w) = Inl e \<longrightarrow>
       fst (channels M s) = Inl e"
    "fst (f (''/guilds/'' @ guildId opts @ ''/members?after='' @ c
             @ ''&limit='' @ Number_toString (membersLimit opts)) w) = Inl e \<longrightarrow>
       fst (members s c) = Inl e"
    "fst (f (''/channels/'' @ ch @ ''/messages?after='' @ c
             @ ''&limit='' @ Number_toString (messagesLimit opts)) w) = Inl e \<longrightarrow>
       fst (messages M D s ch c) = Inl e"
    using guild_Inl [of s e] channels_Inl [of s e M] members_Inl [of s c e]
      messages_Inl [of s ch c e M D]
    by (simp_all add: await_fetch_fst o t w)
  have rerr: "emojiToRef M emoji = Inr eref \<longrightarrow>
     fst (f (''/channels/'' @ ch @ ''/messages/'' @ m @ ''/reactions/'' @ eref
             @ ''?after='' @ c @ ''&limit='' @ Number_toString (reactionsLimit opts)) w) = Inl e
       \<longrightarrow> fst (reactions M s ch m emoji c) = Inl e"
    using reactions_Inl [of M emoji eref s ch m c e]
    by (simp add: await_fetch_fst o t w)
  have worlds:
    "world (snd (guild s)) = snd (f (''guilds/'' @ guildId opts) w)"
    "world (snd (channels M s)) = snd (f (''/guilds/'' @ guildId opts @ ''/channels'') w)"
    "world (snd (members s c)) =
      snd (f (''/guilds/'' @ guildId opts @ ''/members?after='' @ c
              @ ''&limit='' @ Number_toString (membersLimit opts)) w)"
    "world (snd (messages M D s ch c)) =
      snd (f (''/channels/'' @ ch @ ''/messages?after='' @ c
              @ ''&limit='' @ Number_toString (messagesLimit opts)) w)"
    by (simp_all add: guild_snd channels_snd members_snd messages_snd await_fetch_snd o t w)
  have rworld: "emojiToRef M emoji = Inr eref \<longrightarrow>
     world (snd (reactions M s ch m emoji c)) =
      snd (f (''/channels/'' @ ch @ ''/messages/'' @ m @ ''/reactions/'' @ eref
              @ ''?after='' @ c @ ''&limit='' @ Number_toString (reactionsLimit opts)) w)"
    by (simp add: reactions_snd await_fetch_snd o t w)
  from calls once none most errs rerr worlds rworld show ?thesis by blast
qed

text \<open>
  A transport that rejects every request: each method makes its one call and rejects
  with the transport's reason. With \<^verbatim>\<open>null\<close> for the emoji the encoder throws, and
  \<^verbatim>\<open>reactions\<close> rejects with its \<^verbatim>\<open>TypeError\<close> without a call.
\<close>

theorem one_request_unless_encoder_throws_witness:
  "fst (guild \<lparr>this = Fetcher_new (rejects (Thrown (JStr ''boom''))) (testOptions 2),
               world = ()\<rparr>) = Inl (Thrown (JStr ''boom'')) \<and>
   fst (channels testModel
          \<lparr>this = Fetcher_new (rejects (Thrown (JStr ''boom''))) (testOptions 2),
           world = ()\<rparr>) = Inl (Thrown (JStr ''boom'')) \<and>
   fst (members \<lparr>this = Fetcher_new (rejects (Thrown (JStr ''boom''))) (testOptions 2),
                 world = ()\<rparr> ''0'') = Inl (Thrown (JStr ''boom'')) \<and>
   fst (messages testModel testDateParse
          \<lparr>this = Fetcher_new (rejects (Thrown (JStr ''boom''))) (testOptions 2),
           world = ()\<rparr> ''1'' ''0'') = Inl (Thrown (JStr ''boom'')) \<and>
   emojiToRef testModel testEmoji = Inr ''emojiname:1'' \<and>
   fst (reactions testModel
          \<lparr>this = Fetcher_new (rejects (Thrown (JStr ''boom''))) (testOptions 2),
           world = ()\<rparr> ''1'' ''2'' testEmoji ''0'') = Inl (Thrown (JStr ''boom'')) \<and>
   length (mock_calls (snd (reactions testModel
     \<lparr>this = Fetcher_new (jest_fn (rejects (Thrown (JStr ''boom'')))) (testOptions 2),
      world = ((), [])\<rparr> ''1'' ''2'' testEmoji ''0''))) = 1 \<and>
   emojiToRef testModel JNull = Inl TypeError \<and>
   mock_calls (snd (reactions testModel
     \<lparr>this = Fetcher_new (jest_fn (rejects (Thrown (JStr ''boom'')))) (testOptions 2),
      world = ((), [])\<rparr> ''1'' ''2'' JNull ''0'')) = [] \<and>
   fst (reactions testModel
          \<lparr>this = Fetcher_new (rejects (Thrown (JStr ''boom''))) (testOptions 2),
           world = ()\<rparr> ''1'' ''2'' JNull ''0'') = Inl TypeError"
proof -
  have nul: "emojiToRef testModel JNull = Inl TypeError"
    by (simp add: testModel_def emojiToRef_model_def)
  note t = one_request_unless_encoder_throws [where f = "rejects (Thrown (JStr ''boom''))"
      and opts = "testOptions 2" and w = "()" and e = "Thrown (JStr ''boom'')"
      and M = testModel and D = testDateParse and c = "''0''" and ch = "''1''"
      and m = "''2''"]
  from t [where emoji = testEmoji and eref = "''emojiname:1''"]
    t [where emoji = JNull and x = TypeError] testEmoji_ref nul
  show ?thesis
    by (simp add: rejects_def)
qed

text \<open>
  \<^verbatim>\<open>reactions\<close> with \<^verbatim>\<open>null\<close> for the emoji, on a recording transport that would resolve:
  the encoder throws before the request, so the transport has no call and the method
  rejects with the \<^verbatim>\<open>TypeError\<close>.
\<close>

theorem reactions_no_request_counterexample:
  "mock_calls (snd (reactions testModel
     \<lparr>this = Fetcher_new (jest_fn (resolves (JArr []))) (testOptions 2), world = ((), [])\<rparr>
     ''1'' ''2'' JNull ''0'')) = [] \<and>
   fst (reactions testModel
     \<lparr>this = Fetcher_new (jest_fn (resolves (JArr []))) (testOptions 2), world = ((), [])\<rparr>
     ''1'' ''2'' JNull ''0'') = Inl TypeError"
  by (simp add: reactions_def testModel_def emojiToRef_model_def mock_calls_def)

text \<open>
  C9. No method changes the fetcher: after \<^verbatim>\<open>guild\<close>, \<^verbatim>\<open>channels\<close>, \<^verbatim>\<open>members\<close>,
  \<^verbatim>\<open>messages\<close> or \<^verbatim>\<open>reactions\<close> the object holds the transport and the options it held
  before, and the state differs from the one before in the transport's world only.
\<close>

theorem fetcher_unchanged:
  "this (snd (guild s)) = this s \<and> snd (guild s) = s\<lparr>world := world (snd (guild s))\<rparr> \<and>
   this (snd (channels M s)) = this s \<and>
   snd (channels M s) = s\<lparr>world := world (snd (channels M s))\<rparr> \<and>
   this (snd (members s c)) = this s \<and>
   snd (members s c) = s\<lparr>world := world (snd (members s c))\<rparr> \<and>
   this (snd (messages M D s ch c)) = this s \<and>
   snd (messages M D s ch c) = s\<lparr>world := world (snd (messages M D s ch c))\<rparr> \<and>
   this (snd (reactions M s ch m emoji c)) = this s \<and>
   snd (reactions M s ch m emoji c) = s\<lparr>world := world (snd (reactions M s ch m emoji c))\<rparr>"
proof -
  have r: "this (snd (reactions M s ch m emoji c)) = this s \<and>
      snd (reactions M s ch m emoji c) = s\<lparr>world := world (snd (reactions M s ch m emoji c))\<rparr>"
  proof (cases "emojiToRef M emoji")
    case (Inl x)
    then show ?thesis by (simp add: reactions_throws)
  next
    case (Inr eref)
    then show ?thesis by (simp add: reactions_snd await_fetch_snd)
  qed
  then show ?thesis
    by (simp add: guild_snd channels_snd members_snd messages_snd await_fetch_snd)
qed

end
